theory Spec2Isabelle
  imports Complex_Main "HOL-Library.Log_Nat"
begin

section \<open>Python and NumPy values\<close>

text \<open>
  The module \<^verbatim>\<open>plotly/express/_imshow.py\<close> works on NumPy arrays and on plain Python
  numbers. A floating-point value is one of the IEEE specials or a finite value, kept as
  the exact rational it denotes; a Python or NumPy scalar is a boolean, an integer or a
  float.
\<close>

datatype fl = Fin rat | PInf | NInf | NaN

datatype pynum = PBool bool | PInt int | PFloat fl

text \<open>The numeric value of a scalar: booleans count as 0 and 1, as in Python.\<close>

fun num_of :: "pynum \<Rightarrow> fl" where
  "num_of (PBool b) = Fin (if b then 1 else 0)"
| "num_of (PInt i) = Fin (of_int i)"
| "num_of (PFloat f) = f"

text \<open>IEEE comparison \<^verbatim>\<open><=\<close>: false as soon as one side is a NaN.\<close>

fun fl_le :: "fl \<Rightarrow> fl \<Rightarrow> bool" where
  "fl_le NaN _ = False"
| "fl_le _ NaN = False"
| "fl_le NInf _ = True"
| "fl_le _ PInf = True"
| "fl_le PInf _ = False"
| "fl_le _ NInf = False"
| "fl_le (Fin a) (Fin b) = (a \<le> b)"

definition num_le :: "pynum \<Rightarrow> pynum \<Rightarrow> bool" where
  "num_le a b = fl_le (num_of a) (num_of b)"

definition isnan :: "pynum \<Rightarrow> bool" where
  "isnan a = (num_of a = NaN)"

text \<open>\<^verbatim>\<open>np.isfinite\<close>: neither an infinity nor a NaN.\<close>

definition isfinite :: "pynum \<Rightarrow> bool" where
  "isfinite a = (case num_of a of Fin _ \<Rightarrow> True | _ \<Rightarrow> False)"

text \<open>Python truthiness of a number (\<^verbatim>\<open>if args[attr_name]:\<close>): nonzero; a NaN is true.\<close>

definition truthy :: "pynum \<Rightarrow> bool" where
  "truthy a = (num_of a \<noteq> Fin 0)"

subsection \<open>Binary64 arithmetic\<close>

text \<open>
  Python's \<^verbatim>\<open>float\<close> is IEEE binary64. The literal \<^verbatim>\<open>1.05\<close> and the products
  \<^verbatim>\<open>255 * rtol\<close>, \<^verbatim>\<open>65535 * rtol\<close> are the exact results rounded to the nearest
  value with a 53-bit significand, ties to even. \<open>binary64\<close> is that rounding on the
  finite range: the result is a multiple of \<open>2^(e - 52)\<close>, where \<open>e\<close> is the binary
  exponent of the argument and at least -1022 (the arguments used here are far below
  the overflow threshold).
\<close>

definition round_half_even :: "rat \<Rightarrow> int" where
  "round_half_even q =
     (let f = \<lfloor>q\<rfloor>; r = q - of_int f
      in if r < 1 / 2 then f
         else if 1 / 2 < r then f + 1
         else if even f then f else f + 1)"

text \<open>\<open>ilog2 x\<close> is the integer \<open>e\<close> with \<open>2^e \<le> x < 2^(e+1)\<close>, for positive \<open>x\<close>.\<close>

definition ilog2 :: "rat \<Rightarrow> int" where
  "ilog2 x =
     (if 1 \<le> x then int (floorlog 2 (nat \<lfloor>x\<rfloor>)) - 1
      else - int (floorlog 2 (nat (\<lceil>1 / x\<rceil> - 1))))"

definition binary64 :: "rat \<Rightarrow> rat" where
  "binary64 x =
     (if x = 0 then 0
      else let e = max (ilog2 \<bar>x\<bar>) (- 1022)
           in if 52 \<le> e
              then sgn x * of_int (round_half_even (\<bar>x\<bar> / 2 ^ nat (e - 52))) * 2 ^ nat (e - 52)
              else sgn x * of_int (round_half_even (\<bar>x\<bar> * 2 ^ nat (52 - e))) / 2 ^ nat (52 - e))"

definition fmul :: "rat \<Rightarrow> rat \<Rightarrow> rat" where
  "fmul a b = binary64 (a * b)"

subsection \<open>Printing\<close>

text \<open>
  \<^verbatim>\<open>str\<close> of the values the error messages embed. Integers print in decimal,
  a tuple of integers as Python prints a shape, a list with \<^verbatim>\<open>repr\<close> of its
  elements. The shortest-round-trip printing of a float is Python's own and is taken as
  a parameter \<open>frepr\<close>.
\<close>

definition digit_char :: "nat \<Rightarrow> char" where
  "digit_char d = char_of (48 + d)"

fun str_nat :: "nat \<Rightarrow> string" where
  "str_nat n = (if n < 10 then [digit_char n] else str_nat (n div 10) @ [digit_char (n mod 10)])"

declare str_nat.simps [simp del]

definition str_int :: "int \<Rightarrow> string" where
  "str_int i = (if i < 0 then ''-'' @ str_nat (nat (- i)) else str_nat (nat i))"

fun join :: "string \<Rightarrow> string list \<Rightarrow> string" where
  "join sep [] = []"
| "join sep [s] = s"
| "join sep (s # t # ts) = s @ sep @ join sep (t # ts)"

definition str_tuple :: "nat list \<Rightarrow> string" where
  "str_tuple ns =
     (case ns of
        [n] \<Rightarrow> ''('' @ str_nat n @ '',)''
      | _ \<Rightarrow> ''('' @ join '', '' (map str_nat ns) @ '')'')"

fun py_repr :: "(fl \<Rightarrow> string) \<Rightarrow> pynum \<Rightarrow> string" where
  "py_repr frepr (PBool b) = (if b then ''True'' else ''False'')"
| "py_repr frepr (PInt i) = str_int i"
| "py_repr frepr (PFloat f) = frepr f"

section \<open>Display-range values\<close>

text \<open>
  A \<^verbatim>\<open>zmin\<close>/\<^verbatim>\<open>zmax\<close> argument is a scalar or a sequence of scalars; an argument
  that was not given is \<open>None\<close>.
\<close>

datatype zval = Scalar pynum | Seq "pynum list"

fun py_str :: "(fl \<Rightarrow> string) \<Rightarrow> zval \<Rightarrow> string" where
  "py_str frepr (Scalar v) = py_repr frepr v"
| "py_str frepr (Seq xs) = ''['' @ join '', '' (map (py_repr frepr) xs) @ '']''"

datatype exn =
    ValueError string
  | IndexError string
  | KeyError string
  | AttributeError string
  | UnboundLocalError string
  | CollaboratorError string

text \<open>
  \<^verbatim>\<open>_vectorize_zvalue\<close> (lines 31-46). \<^verbatim>\<open>np.isscalar(z)\<close> holds of a \<open>Scalar\<close>;
  \<^verbatim>\<open>list(z) * 3\<close> repeats the sequence three times.
\<close>

definition vectorize_zvalue :: "(fl \<Rightarrow> string) \<Rightarrow> zval option \<Rightarrow> exn + zval option" where
  "vectorize_zvalue frepr z =
     (case z of
        None \<Rightarrow> Inr None
      | Some (Scalar v) \<Rightarrow> Inr (Some (Seq (replicate 3 v @ [PInt 1])))
      | Some (Seq xs) \<Rightarrow>
          if length xs = 1 then Inr (Some (Seq (concat (replicate 3 xs) @ [PInt 1])))
          else if length xs = 3 then Inr (Some (Seq (xs @ [PInt 1])))
          else if length xs = 4 then Inr (Some (Seq xs))
          else Inl (ValueError
                 (''zmax can be a scalar, or an iterable of length 1, 3 or 4. '' @
                  ''A value of '' @ py_str frepr (Seq xs) @ '' was passed for zmax.'')))"

section \<open>NumPy arrays\<close>

text \<open>
  The ten C integer types of \<^verbatim>\<open>_integer_types\<close> (lines 16-27), the floating-point
  types, and \<^verbatim>\<open>np.bool\<close>. An array is its shape and its typed buffer (row-major), so
  that the element type of an array and the type of its elements cannot disagree. The
  number of dimensions is read from the shape, the elements from the buffer.
\<close>

datatype ctype =
    np_byte | np_ubyte | np_short | np_ushort | np_intc | np_uintc
  | np_int | np_uint | np_longlong | np_ulonglong

datatype ftype = np_half | np_single | np_double | np_longdouble

datatype dtype = DBool | DInt ctype | DFloat ftype

datatype buffer = Bools "bool list" | Ints ctype "int list" | Floats ftype "fl list"

record ndarray =
  shape :: "nat list"
  buf :: buffer

fun dtype_of :: "buffer \<Rightarrow> dtype" where
  "dtype_of (Bools _) = DBool"
| "dtype_of (Ints t _) = DInt t"
| "dtype_of (Floats t _) = DFloat t"

fun elems :: "buffer \<Rightarrow> pynum list" where
  "elems (Bools bs) = map PBool bs"
| "elems (Ints t xs) = map PInt xs"
| "elems (Floats t fs) = map PFloat fs"

definition ndim :: "ndarray \<Rightarrow> nat" where
  "ndim a = length (shape a)"

text \<open>
  \<^verbatim>\<open>np.iinfo\<close>: the widths are those of the usual 64-bit Unix C compiler (the source
  notes that \<^verbatim>\<open>intc\<close> and \<^verbatim>\<open>int_\<close> vary between platforms).
\<close>

fun ctype_bits :: "ctype \<Rightarrow> nat" where
  "ctype_bits np_byte = 8"
| "ctype_bits np_ubyte = 8"
| "ctype_bits np_short = 16"
| "ctype_bits np_ushort = 16"
| "ctype_bits np_intc = 32"
| "ctype_bits np_uintc = 32"
| "ctype_bits np_int = 64"
| "ctype_bits np_uint = 64"
| "ctype_bits np_longlong = 64"
| "ctype_bits np_ulonglong = 64"

fun ctype_signed :: "ctype \<Rightarrow> bool" where
  "ctype_signed np_byte = True"
| "ctype_signed np_ubyte = False"
| "ctype_signed np_short = True"
| "ctype_signed np_ushort = False"
| "ctype_signed np_intc = True"
| "ctype_signed np_uintc = False"
| "ctype_signed np_int = True"
| "ctype_signed np_uint = False"
| "ctype_signed np_longlong = True"
| "ctype_signed np_ulonglong = False"

definition iinfo_min :: "ctype \<Rightarrow> int" where
  "iinfo_min t = (if ctype_signed t then - (2 ^ (ctype_bits t - 1)) else 0)"

definition iinfo_max :: "ctype \<Rightarrow> int" where
  "iinfo_max t = (if ctype_signed t then 2 ^ (ctype_bits t - 1) - 1 else 2 ^ ctype_bits t - 1)"

definition integer_types :: "ctype list" where
  "integer_types =
     [np_byte, np_ubyte, np_short, np_ushort, np_intc, np_uintc,
      np_int, np_uint, np_longlong, np_ulonglong]"

text \<open>\<^verbatim>\<open>_integer_ranges\<close> (line 28): a dictionary from each type to its (min, max).\<close>

definition integer_ranges :: "(dtype \<times> int \<times> int) list" where
  "integer_ranges = map (\<lambda>t. (DInt t, (iinfo_min t, iinfo_max t))) integer_types"

subsection \<open>Reductions\<close>

text \<open>
  \<^verbatim>\<open>ndarray.max()\<close> and \<^verbatim>\<open>ndarray.min()\<close>: a NaN propagates, and an array with
  no element has no maximum (NumPy raises \<^verbatim>\<open>ValueError\<close>).
\<close>

definition np_maximum :: "pynum \<Rightarrow> pynum \<Rightarrow> pynum" where
  "np_maximum a b = (if isnan a then a else if isnan b then b else if num_le a b then b else a)"

definition np_minimum :: "pynum \<Rightarrow> pynum \<Rightarrow> pynum" where
  "np_minimum a b = (if isnan a then a else if isnan b then b else if num_le b a then b else a)"

definition reduce_max :: "pynum list \<Rightarrow> exn + pynum" where
  "reduce_max xs =
     (case xs of
        [] \<Rightarrow> Inl (ValueError
                ''zero-size array to reduction operation maximum which has no identity'')
      | y # ys \<Rightarrow> Inr (foldl np_maximum y ys))"

definition reduce_min :: "pynum list \<Rightarrow> exn + pynum" where
  "reduce_min xs =
     (case xs of
        [] \<Rightarrow> Inl (ValueError
                ''zero-size array to reduction operation minimum which has no identity'')
      | y # ys \<Rightarrow> Inr (foldl np_minimum y ys))"

definition amax :: "ndarray \<Rightarrow> exn + pynum" where
  "amax a = reduce_max (elems (buf a))"

definition amin :: "ndarray \<Rightarrow> exn + pynum" where
  "amin a = reduce_min (elems (buf a))"

section \<open>Inferring a default maximum\<close>

text \<open>
  \<^verbatim>\<open>_infer_zmax_from_type\<close> (lines 49-63). \<^verbatim>\<open>rtol = 1.05\<close> is a binary64 literal;
  \<^verbatim>\<open>img[np.isfinite(img)].max()\<close> is the maximum of the finite elements; the results
  are Python integers. \<^verbatim>\<open>dt\<close> is the scalar type of the array, and the lookup
  \<^verbatim>\<open>_integer_ranges[dt]\<close> is a dictionary access, with its \<^verbatim>\<open>KeyError\<close>.
\<close>

definition rtol :: rat where
  "rtol = binary64 (105 / 100)"

definition infer_zmax_from_type :: "ndarray \<Rightarrow> exn + pynum" where
  "infer_zmax_from_type img =
     (let dt = dtype_of (buf img)
      in if dt \<in> set (map DInt integer_types) then
           (case map_of integer_ranges dt of
              None \<Rightarrow> Inl (KeyError ''dt'')
            | Some r \<Rightarrow> Inr (PInt (snd r)))
         else
           (case reduce_max (filter isfinite (elems (buf img))) of
              Inl e \<Rightarrow> Inl e
            | Inr im_max \<Rightarrow>
                if num_le im_max (PFloat (Fin (fmul 1 rtol))) then Inr (PInt 1)
                else if num_le im_max (PFloat (Fin (fmul 255 rtol))) then Inr (PInt 255)
                else if num_le im_max (PFloat (Fin (fmul 65535 rtol))) then Inr (PInt 65535)
                else Inr (PInt (2 ^ 32))))"

section \<open>The store\<close>

text \<open>
  Arrays and labelled arrays are objects the caller shares with \<^verbatim>\<open>imshow\<close>, so they
  live in a store and are passed by reference. \<open>n_arrays\<close> is the number of array
  addresses in use; an operation that makes a new array (\<^verbatim>\<open>astype\<close>, a product) puts
  it at the next free address.

  A labelled array (\<^verbatim>\<open>xarray.DataArray\<close>) has its dimension names, what
  \<^verbatim>\<open>img.coords[name]\<close> returns for a name (\<open>None\<close> where xarray raises
  \<^verbatim>\<open>KeyError\<close>), the address of its values, and the text that
  \<^verbatim>\<open>xarray.plot.utils.label_from_attrs\<close> derives from its attributes. A date-time
  coordinate is kept as the text NumPy prints for each of its values.
\<close>

type_synonym addr = nat

datatype coord = NumCoord "pynum list" | StrCoord "string list" | DatetimeCoord "string list"

record dataarray =
  da_dims :: "string list"
  da_coords :: "string \<Rightarrow> coord option"
  da_values :: addr
  da_label :: string

datatype ref = ArrRef addr | XrRef addr

record heap =
  arrays :: "addr \<Rightarrow> ndarray"
  n_arrays :: nat
  xarrays :: "addr \<Rightarrow> dataarray"

definition alloc :: "heap \<Rightarrow> ndarray \<Rightarrow> heap \<times> addr" where
  "alloc h a = (h\<lparr>arrays := (arrays h)(n_arrays h := a), n_arrays := Suc (n_arrays h)\<rparr>, n_arrays h)"

text \<open>
  \<^verbatim>\<open>np.asanyarray\<close> makes no copy: an array is returned as it is, and a labelled array
  gives the array of its values.
\<close>

fun asanyarray :: "heap \<Rightarrow> ref \<Rightarrow> addr" where
  "asanyarray h (ArrRef p) = p"
| "asanyarray h (XrRef r) = da_values (xarrays h r)"

text \<open>
  \<^verbatim>\<open>np.issubdtype(c.dtype, np.datetime64)\<close> and \<^verbatim>\<open>c.astype(str)\<close> on a coordinate.
\<close>

fun is_datetime64 :: "coord \<Rightarrow> bool" where
  "is_datetime64 (DatetimeCoord _) = True"
| "is_datetime64 _ = False"

fun coord_astype_str :: "(fl \<Rightarrow> string) \<Rightarrow> coord \<Rightarrow> coord" where
  "coord_astype_str frepr (DatetimeCoord ts) = StrCoord ts"
| "coord_astype_str frepr (StrCoord ts) = StrCoord ts"
| "coord_astype_str frepr (NumCoord xs) = StrCoord (map (py_repr frepr) xs)"

text \<open>
  \<^verbatim>\<open>img.astype(np.uint8)\<close> gives the 8-bit values of a new array: a boolean becomes
  0 or 1, an integer wraps modulo 256. (\<^verbatim>\<open>imshow\<close> converts boolean arrays only; a
  finite float is truncated towards zero and wrapped, and NumPy leaves the conversion
  of an infinity or a NaN to the platform.) \<^verbatim>\<open>255 * a\<close> on an 8-bit unsigned array
  stays 8-bit and wraps.
\<close>

fun astype_uint8 :: "buffer \<Rightarrow> int list" where
  "astype_uint8 (Bools bs) = map (\<lambda>b. if b then 1 else 0) bs"
| "astype_uint8 (Ints t xs) = map (\<lambda>x. x mod 256) xs"
| "astype_uint8 (Floats t fs) =
     map (\<lambda>f. case f of Fin r \<Rightarrow> (if r < 0 then - \<lfloor>- r\<rfloor> else \<lfloor>r\<rfloor>) mod 256 | _ \<Rightarrow> 0) fs"

definition mul_uint8 :: "int \<Rightarrow> int list \<Rightarrow> int list" where
  "mul_uint8 k xs = map (\<lambda>x. (k * x) mod 256) xs"

text \<open>
  Python objects compared in the source: an array's \<^verbatim>\<open>dtype\<close> attribute is an instance
  of \<^verbatim>\<open>numpy.dtype\<close>, while \<^verbatim>\<open>np.bool\<close> and \<^verbatim>\<open>np.uint8\<close> are scalar type classes.
  \<^verbatim>\<open>==\<close> on a dtype converts the other side to a dtype first; \<^verbatim>\<open>is\<close> is object
  identity, and an instance is never the same object as a class.
\<close>

datatype pyobj = DtypeInstance dtype | ScalarTypeClass dtype

fun np_dtype :: "pyobj \<Rightarrow> dtype" where
  "np_dtype (DtypeInstance d) = d"
| "np_dtype (ScalarTypeClass d) = d"

definition dtype_eq :: "pyobj \<Rightarrow> pyobj \<Rightarrow> bool" where
  "dtype_eq a b = (np_dtype a = np_dtype b)"

definition py_is :: "pyobj \<Rightarrow> pyobj \<Rightarrow> bool" where
  "py_is a b = (a = b)"

definition img_dtype :: "ndarray \<Rightarrow> pyobj" where
  "img_dtype a = DtypeInstance (dtype_of (buf a))"

section \<open>Arguments, collaborators and the figure\<close>

datatype cscale = ScaleName string | ScaleColors "string list"

text \<open>A template object, with what \<^verbatim>\<open>template.layout.margin.t\<close> reads.\<close>

record template =
  template_name :: string
  layout_margin_t :: "pynum option"

text \<open>The parameters of \<^verbatim>\<open>imshow\<close> (lines 66-80), which \<^verbatim>\<open>locals()\<close> collects.\<close>

record args =
  a_img :: ref
  a_zmin :: "zval option"
  a_zmax :: "zval option"
  a_origin :: "string option"
  a_labels :: "(string \<Rightarrow> string option) option"
  a_color_continuous_scale :: "cscale option"
  a_color_continuous_midpoint :: "pynum option"
  a_range_color :: "zval option list option"
  a_title :: "string option"
  a_template :: "template option"
  a_width :: "pynum option"
  a_height :: "pynum option"
  a_aspect :: "string option"

text \<open>
  What the module takes from outside this file: whether \<^verbatim>\<open>import xarray\<close> succeeded,
  \<^verbatim>\<open>apply_default_cascade\<close> of \<^verbatim>\<open>._core\<close> (it fills defaults into the dictionary of
  arguments, given here as the dictionary it leaves), the colour-scale validator's
  \<^verbatim>\<open>validate_coerce\<close>, and Python's printing of floats. A collaborator that raises
  returns the text of its exception, which \<^verbatim>\<open>imshow\<close> does not catch: it leaves the
  call as a \<open>CollaboratorError\<close>.
\<close>

record env =
  xarray_imported :: bool
  apply_default_cascade :: "args \<Rightarrow> string + args"
  validate_coerce :: "cscale option \<Rightarrow> string + cscale option"
  float_repr :: "fl \<Rightarrow> string"

record coloraxis =
  colorscale :: "cscale option"
  cmid :: "pynum option"
  cmin :: "zval option"
  cmax :: "zval option"
  colorbar_title :: string

datatype trace_type = Heatmap | Image

record trace =
  t_type :: trace_type
  t_z :: addr
  t_coloraxis :: "string option"
  t_zmin :: "zval option"
  t_zmax :: "zval option"
  t_x :: "coord option"
  t_y :: "coord option"
  t_hovertemplate :: "string option"

datatype autorange = AutoTrue | AutoReversed

record layout =
  yaxis_autorange :: "autorange option"
  yaxis_constrain :: "string option"
  xaxis_scaleanchor :: "string option"
  xaxis_constrain :: "string option"
  coloraxis1 :: "coloraxis option"
  l_title :: "string option"
  l_height :: "pynum option"
  l_width :: "pynum option"
  l_margin_t :: "pynum option"
  xaxis_title_text :: "string option"
  yaxis_title_text :: "string option"
  l_template :: "template option"

record figure =
  fig_data :: trace
  fig_layout :: layout

section \<open>The function imshow\<close>

text \<open>Sequencing: an exception ends the computation.\<close>

definition and_then :: "exn + 'a \<Rightarrow> ('a \<Rightarrow> exn + 'b) \<Rightarrow> exn + 'b" where
  "and_then r f = (case r of Inl e \<Rightarrow> Inl e | Inr v \<Rightarrow> f v)"

definition collaborator :: "string + 'a \<Rightarrow> exn + 'a" where
  "collaborator r = (case r of Inl msg \<Rightarrow> Inl (CollaboratorError msg) | Inr v \<Rightarrow> Inr v)"

text \<open>Indexing a tuple or a list: Python raises \<^verbatim>\<open>IndexError\<close> out of range.\<close>

definition getitem :: "string \<Rightarrow> 'a list \<Rightarrow> nat \<Rightarrow> exn + 'a" where
  "getitem what xs i =
     (if i < length xs then Inr (xs ! i) else Inl (IndexError (what @ '' index out of range'')))"

text \<open>Reading a local variable that no branch has assigned.\<close>

definition bound :: "string \<Rightarrow> 'a option \<Rightarrow> exn + 'a" where
  "bound name v =
     (case v of
        None \<Rightarrow> Inl (UnboundLocalError
                 (''local variable '' @ [CHR 0x27] @ name @ [CHR 0x27] @
                  '' referenced before assignment''))
      | Some w \<Rightarrow> Inr w)"

text \<open>The local variables the first part of the body sets (\<open>None\<close>: not assigned).\<close>

record locals =
  v_x_label :: "string option"
  v_y_label :: "string option"
  v_x :: "coord option"
  v_y :: "coord option"
  v_img_is_xarray :: bool
  v_aspect :: "string option"
  v_z_name :: string

subsection \<open>Labelled input (lines 170-184)\<close>

text \<open>
  Lines 176-178: a date-time coordinate of the labelled array is replaced by its text,
  in the caller's object.
\<close>

definition datetime_to_text :: "(fl \<Rightarrow> string) \<Rightarrow> dataarray \<Rightarrow> string \<Rightarrow> exn + dataarray" where
  "datetime_to_text frepr d ax =
     (case da_coords d ax of
        None \<Rightarrow> Inl (KeyError ax)
      | Some c \<Rightarrow>
          if is_datetime64 c
          then Inr (d\<lparr>da_coords := (da_coords d)(ax := Some (coord_astype_str frepr c))\<rparr>)
          else Inr d)"

fun coords_to_text :: "(fl \<Rightarrow> string) \<Rightarrow> heap \<Rightarrow> addr \<Rightarrow> string list \<Rightarrow> (exn + unit) \<times> heap" where
  "coords_to_text frepr h r [] = (Inr (), h)"
| "coords_to_text frepr h r (ax # axs) =
     (case datetime_to_text frepr (xarrays h r) ax of
        Inl e \<Rightarrow> (Inl e, h)
      | Inr d \<Rightarrow> coords_to_text frepr (h\<lparr>xarrays := (xarrays h)(r := d)\<rparr>) r axs)"

text \<open>\<^verbatim>\<open>.replace("\n", "<br>")\<close>\<close>

definition replace_newlines :: "string \<Rightarrow> string" where
  "replace_newlines s = concat (map (\<lambda>c. if c = CHR 0x0A then ''<br>'' else [c]) s)"

definition labelled_input :: "env \<Rightarrow> heap \<Rightarrow> args \<Rightarrow> (exn + locals) \<times> heap" where
  "labelled_input env h a =
     (let v0 = \<lparr>v_x_label = None, v_y_label = None, v_x = None, v_y = None,
                 v_img_is_xarray = False, v_aspect = a_aspect a, v_z_name = []\<rparr>
      in if xarray_imported env then
           (case a_img a of
              ArrRef p \<Rightarrow> (Inr v0, h)
            | XrRef r \<Rightarrow>
                (case and_then (getitem ''tuple'' (da_dims (xarrays h r)) 0) (\<lambda>yl.
                      and_then (getitem ''tuple'' (da_dims (xarrays h r)) 1) (\<lambda>xl. Inr (yl, xl))) of
                   Inl e \<Rightarrow> (Inl e, h)
                 | Inr (yl, xl) \<Rightarrow>
                     (case coords_to_text (float_repr env) h r [xl, yl] of
                        (Inl e, h1) \<Rightarrow> (Inl e, h1)
                      | (Inr u, h1) \<Rightarrow>
                          (case da_coords (xarrays h1 r) xl of
                             None \<Rightarrow> (Inl (KeyError xl), h1)
                           | Some cx \<Rightarrow>
                               (case da_coords (xarrays h1 r) yl of
                                  None \<Rightarrow> (Inl (KeyError yl), h1)
                                | Some cy \<Rightarrow>
                                    (Inr \<lparr>v_x_label = Some xl, v_y_label = Some yl,
                                          v_x = Some cx, v_y = Some cy,
                                          v_img_is_xarray = True,
                                          v_aspect = (if a_aspect a = None then Some ''auto''
                                                      else a_aspect a),
                                          v_z_name = replace_newlines (da_label (xarrays h1 r))\<rparr>,
                                     h1))))))
         else (Inr v0, h))"

subsection \<open>Label overrides and the aspect default (lines 186-196)\<close>

definition apply_labels :: "(string \<Rightarrow> string option) option \<Rightarrow> locals \<Rightarrow> locals" where
  "apply_labels labels v =
     (case labels of
        None \<Rightarrow> v
      | Some m \<Rightarrow>
          (let v1 = (case m ''x'' of None \<Rightarrow> v | Some s \<Rightarrow> v\<lparr>v_x_label := Some s\<rparr>);
               v2 = (case m ''y'' of None \<Rightarrow> v1 | Some s \<Rightarrow> v1\<lparr>v_y_label := Some s\<rparr>)
           in (case m ''color'' of None \<Rightarrow> v2 | Some s \<Rightarrow> v2\<lparr>v_z_name := s\<rparr>)))"

definition default_aspect :: "locals \<Rightarrow> locals" where
  "default_aspect v =
     (if \<not> v_img_is_xarray v then
        (if v_aspect v = None then v\<lparr>v_aspect := Some ''equal''\<rparr> else v)
      else v)"

subsection \<open>Booleans to intensities (lines 198-202)\<close>

text \<open>
  \<^verbatim>\<open>img = 255 * img.astype(np.uint8)\<close> when \<^verbatim>\<open>img.dtype == np.bool\<close>: two new arrays,
  the converted one and the product; the local \<^verbatim>\<open>img\<close> then refers to the product.
\<close>

definition cast_bools :: "heap \<Rightarrow> addr \<Rightarrow> addr \<times> heap" where
  "cast_bools h p =
     (if dtype_eq (img_dtype (arrays h p)) (ScalarTypeClass DBool) then
        (let bytes = astype_uint8 (buf (arrays h p))
         in case alloc h \<lparr>shape = shape (arrays h p), buf = Ints np_ubyte bytes\<rparr> of
              (h1, t) \<Rightarrow>
                (case alloc h1 \<lparr>shape = shape (arrays h1 t),
                                buf = Ints np_ubyte (mul_uint8 255 bytes)\<rparr> of
                   (h2, q) \<Rightarrow> (q, h2)))
      else (p, h))"

subsection \<open>The heatmap branch (lines 205-226)\<close>

text \<open>
  Lines 213-217. \<^verbatim>\<open>range_color or [zmin, zmax]\<close> keeps \<^verbatim>\<open>range_color\<close> when it is
  true in Python's sense: given and not empty.
\<close>

definition py_or :: "'a list option \<Rightarrow> 'a list \<Rightarrow> 'a list" where
  "py_or r d = (case r of None \<Rightarrow> d | Some [] \<Rightarrow> d | Some (x # xs) \<Rightarrow> x # xs)"

definition heatmap_range ::
  "ndarray \<Rightarrow> zval option \<Rightarrow> zval option \<Rightarrow> zval option list option \<Rightarrow> exn + zval option list" where
  "heatmap_range img zmin zmax range_color =
     and_then (if zmin \<noteq> None \<and> zmax = None
               then and_then (amax img) (\<lambda>m. Inr (Some (Scalar m)))
               else Inr zmax) (\<lambda>zmax1.
     and_then (if zmax1 \<noteq> None \<and> zmin = None
               then and_then (amin img) (\<lambda>m. Inr (Some (Scalar m)))
               else Inr zmin) (\<lambda>zmin1.
     Inr (py_or range_color [zmin1, zmax1])))"

definition empty_layout :: layout where
  "empty_layout =
     \<lparr>yaxis_autorange = None, yaxis_constrain = None, xaxis_scaleanchor = None,
      xaxis_constrain = None, coloraxis1 = None, l_title = None, l_height = None,
      l_width = None, l_margin_t = None, xaxis_title_text = None, yaxis_title_text = None,
      l_template = None\<rparr>"

definition heatmap_branch ::
  "env \<Rightarrow> args \<Rightarrow> args \<Rightarrow> locals \<Rightarrow> addr \<Rightarrow> ndarray \<Rightarrow> exn + trace \<times> layout" where
  "heatmap_branch env args a v p img =
     (let tr = \<lparr>t_type = Heatmap, t_z = p, t_coloraxis = Some ''coloraxis1'',
                 t_zmin = None, t_zmax = None, t_x = None, t_y = None,
                 t_hovertemplate = None\<rparr>;
          lay0 = empty_layout\<lparr>yaxis_autorange :=
                    Some (if a_origin a = Some ''lower'' then AutoTrue else AutoReversed)\<rparr>;
          lay1 = (if v_aspect v = Some ''equal''
                  then lay0\<lparr>xaxis_scaleanchor := Some ''y'', xaxis_constrain := Some ''domain'',
                            yaxis_constrain := Some ''domain''\<rparr>
                  else lay0)
      in and_then (heatmap_range img (a_zmin a) (a_zmax a) (a_range_color a)) (\<lambda>range_color.
         and_then (collaborator (validate_coerce env (a_color_continuous_scale args))) (\<lambda>cs.
         and_then (getitem ''list'' range_color 0) (\<lambda>lo.
         and_then (getitem ''list'' range_color 1) (\<lambda>hi.
         Inr (tr, lay1\<lparr>coloraxis1 :=
                Some \<lparr>colorscale = cs, cmid = a_color_continuous_midpoint a,
                      cmin = lo, cmax = hi, colorbar_title = v_z_name v\<rparr>\<rparr>))))))"

subsection \<open>The image branch (lines 229-236)\<close>

definition image_branch :: "env \<Rightarrow> args \<Rightarrow> addr \<Rightarrow> ndarray \<Rightarrow> exn + trace \<times> layout" where
  "image_branch env a p img =
     and_then (if a_zmax a = None \<and> \<not> py_is (img_dtype img) (ScalarTypeClass (DInt np_ubyte))
               then and_then (infer_zmax_from_type img) (\<lambda>m. Inr (Some (Scalar m)))
               else Inr (a_zmax a)) (\<lambda>zmax.
     and_then (vectorize_zvalue (float_repr env) (a_zmin a)) (\<lambda>zmin1.
     and_then (vectorize_zvalue (float_repr env) zmax) (\<lambda>zmax1.
     Inr (\<lparr>t_type = Image, t_z = p, t_coloraxis = None, t_zmin = zmin1, t_zmax = zmax1,
           t_x = None, t_y = None, t_hovertemplate = None\<rparr>,
          (if a_origin a = Some ''lower''
           then empty_layout\<lparr>yaxis_autorange := Some AutoTrue\<rparr>
           else empty_layout)))))"

subsection \<open>Choosing the branch (lines 205, 229, 237-241)\<close>

definition shape_error :: "nat list \<Rightarrow> exn" where
  "shape_error sh =
     ValueError (''px.imshow only accepts 2D single-channel, RGB or RGBA images. '' @
                 ''An image of shape '' @ str_tuple sh @ '' was provided'')"

definition build_trace ::
  "env \<Rightarrow> args \<Rightarrow> args \<Rightarrow> locals \<Rightarrow> addr \<Rightarrow> ndarray \<Rightarrow> exn + trace \<times> layout" where
  "build_trace env args a v p img =
     (if ndim img = 2 then heatmap_branch env args a v p img
      else if ndim img = 3 \<and> last (shape img) \<in> set [3, 4] then image_branch env a p img
      else Inl (shape_error (shape img)))"

subsection \<open>Assembling the figure (lines 243-265)\<close>

definition layout_patch ::
  "args \<Rightarrow> exn + string option \<times> pynum option \<times> pynum option \<times> pynum option" where
  "layout_patch args =
     (let title = (case a_title args of None \<Rightarrow> None
                   | Some s \<Rightarrow> if s \<noteq> [] then Some s else None);
          height = (case a_height args of None \<Rightarrow> None
                    | Some n \<Rightarrow> if truthy n then Some n else None);
          width = (case a_width args of None \<Rightarrow> None
                   | Some n \<Rightarrow> if truthy n then Some n else None)
      in if title = None then
           (case a_template args of
              None \<Rightarrow> Inl (AttributeError
                        ([CHR 0x27] @ ''NoneType'' @ [CHR 0x27] @ '' object has no attribute '' @
                         [CHR 0x27] @ ''layout'' @ [CHR 0x27]))
            | Some t \<Rightarrow>
                Inr (title, height, width,
                     if layout_margin_t t = None then Some (PInt 60) else None))
         else Inr (title, height, width, None))"

definition hover_text :: "string \<Rightarrow> string \<Rightarrow> string \<Rightarrow> string" where
  "hover_text xl yl zn = xl @ '': %{x} <br>'' @ yl @ '': %{y} <br>'' @ zn @ '' : %{z}<extra></extra>''"

definition labelled_output :: "locals \<Rightarrow> ndarray \<Rightarrow> trace \<Rightarrow> layout \<Rightarrow> exn + trace \<times> layout" where
  "labelled_output v img tr lay =
     (if v_img_is_xarray v then
        and_then (if ndim img \<le> 2 then
                    and_then (bound ''x_label'' (v_x_label v)) (\<lambda>xl.
                    and_then (bound ''y_label'' (v_y_label v)) (\<lambda>yl.
                    and_then (bound ''x'' (v_x v)) (\<lambda>cx.
                    and_then (bound ''y'' (v_y v)) (\<lambda>cy.
                    Inr (tr\<lparr>t_x := Some cx, t_y := Some cy,
                            t_hovertemplate := Some (hover_text xl yl (v_z_name v))\<rparr>)))))
                  else Inr tr) (\<lambda>tr1.
        and_then (bound ''x_label'' (v_x_label v)) (\<lambda>xl.
        and_then (bound ''y_label'' (v_y_label v)) (\<lambda>yl.
        Inr (tr1, lay\<lparr>xaxis_title_text := Some xl, yaxis_title_text := Some yl\<rparr>))))
      else Inr (tr, lay))"

definition finish :: "args \<Rightarrow> locals \<Rightarrow> ndarray \<Rightarrow> trace \<times> layout \<Rightarrow> exn + figure" where
  "finish args v img built =
     and_then (layout_patch args) (\<lambda>patch.
     and_then (labelled_output v img (fst built)
                 ((snd built)\<lparr>l_title := fst patch, l_height := fst (snd patch),
                              l_width := fst (snd (snd patch)),
                              l_margin_t := snd (snd (snd patch))\<rparr>)) (\<lambda>done1.
     Inr \<lparr>fig_data = fst done1, fig_layout = (snd done1)\<lparr>l_template := a_template args\<rparr>\<rparr>))"

subsection \<open>The whole function (lines 168-265)\<close>

text \<open>
  \<open>a\<close> holds the parameters as passed; \<open>args\<close> is the dictionary after
  \<^verbatim>\<open>apply_default_cascade\<close>. The result is the figure or the exception, with the store
  as the call leaves it.
\<close>

definition imshow :: "env \<Rightarrow> heap \<Rightarrow> args \<Rightarrow> (exn + figure) \<times> heap" where
  "imshow env h a =
     (case collaborator (apply_default_cascade env a) of
        Inl e \<Rightarrow> (Inl e, h)
      | Inr args \<Rightarrow>
          (case labelled_input env h a of
             (Inl e, h1) \<Rightarrow> (Inl e, h1)
           | (Inr v0, h1) \<Rightarrow>
               (case cast_bools h1 (asanyarray h1 (a_img a)) of
                  (p, h2) \<Rightarrow>
                    (and_then
                       (build_trace env args a (default_aspect (apply_labels (a_labels a) v0))
                          p (arrays h2 p))
                       (finish args (default_aspect (apply_labels (a_labels a) v0)) (arrays h2 p)),
                     h2))))"

section \<open>Reading inputs and results\<close>

text \<open>
  The array the branch is chosen on: the input after \<^verbatim>\<open>np.asanyarray\<close> and the
  conversion of booleans (lines 198-202).
\<close>

definition image_array :: "heap \<Rightarrow> args \<Rightarrow> ndarray" where
  "image_array h a = (case cast_bools h (asanyarray h (a_img a)) of (p, h2) \<Rightarrow> arrays h2 p)"

definition multichannel :: "ndarray \<Rightarrow> bool" where
  "multichannel img = (ndim img = 3 \<and> last (shape img) \<in> set [3, 4])"

text \<open>The ends of the colour axis of a figure, and the per-channel range of its trace.\<close>

definition color_range :: "figure \<Rightarrow> (zval option \<times> zval option) option" where
  "color_range fig = map_option (\<lambda>c. (cmin c, cmax c)) (coloraxis1 (fig_layout fig))"

definition channel_range :: "figure \<Rightarrow> zval option \<times> zval option" where
  "channel_range fig = (t_zmin (fig_data fig), t_zmax (fig_data fig))"

text \<open>A range vector of exactly four elements; one whose alpha slot is 1.\<close>

definition four_elements :: "zval option \<Rightarrow> bool" where
  "four_elements r = (case r of Some (Seq xs) \<Rightarrow> length xs = 4 | _ \<Rightarrow> False)"

definition opaque_alpha :: "zval option \<Rightarrow> bool" where
  "opaque_alpha r = (case r of Some (Seq xs) \<Rightarrow> length xs = 4 \<and> xs ! 3 = PInt 1 | _ \<Rightarrow> False)"

definition alpha_supplied :: "zval option \<Rightarrow> bool" where
  "alpha_supplied z = (case z of Some (Seq xs) \<Rightarrow> length xs = 4 | _ \<Rightarrow> False)"

text \<open>
  ``\<open>c\<close> is at least \<open>m\<close>, with the 5% tolerance'': the test the source makes,
  \<^verbatim>\<open>im_max <= c * rtol\<close>.
\<close>

definition within_tolerance :: "pynum \<Rightarrow> int \<Rightarrow> bool" where
  "within_tolerance m c = num_le m (PFloat (Fin (fmul (of_int c) rtol)))"

text \<open>The maximum of the finite elements of an array (line 55).\<close>

definition finite_max :: "ndarray \<Rightarrow> exn + pynum" where
  "finite_max img = reduce_max (filter isfinite (elems (buf img)))"

text \<open>
  The entries of the dictionary of arguments that \<^verbatim>\<open>imshow\<close> reads after
  \<^verbatim>\<open>apply_default_cascade\<close> (lines 220, 245-247, 264), and a cascade whose effect on
  them does not depend on \<^verbatim>\<open>labels\<close>.
\<close>

definition entries_read ::
  "args \<Rightarrow> cscale option \<times> string option \<times> pynum option \<times> pynum option \<times> template option" where
  "entries_read args =
     (a_color_continuous_scale args, a_title args, a_height args, a_width args, a_template args)"

definition cascade_ignores_labels :: "env \<Rightarrow> bool" where
  "cascade_ignores_labels env =
     (\<forall>a l1 l2. map_sum id entries_read (apply_default_cascade env (a\<lparr>a_labels := l1\<rparr>)) =
                map_sum id entries_read (apply_default_cascade env (a\<lparr>a_labels := l2\<rparr>)))"

section \<open>Sample inputs\<close>

text \<open>
  A cascade that fills in a template and a colour scale where none was given, a validator
  that accepts every scale, and a store holding one array at address 0.
\<close>

definition sample_template :: template where
  "sample_template = \<lparr>template_name = ''plotly'', layout_margin_t = Some (PInt 60)\<rparr>"

definition sample_cascade :: "args \<Rightarrow> string + args" where
  "sample_cascade a =
     Inr (a\<lparr>a_template :=
              (case a_template a of
                 None \<Rightarrow> Some sample_template
               | Some t \<Rightarrow> Some t),
            a_color_continuous_scale :=
              (case a_color_continuous_scale a of
                 None \<Rightarrow> Some (ScaleName ''Viridis'')
               | Some c \<Rightarrow> Some c)\<rparr>)"

definition sample_env :: env where
  "sample_env =
     \<lparr>xarray_imported = True, apply_default_cascade = sample_cascade,
      validate_coerce = Inr, float_repr = (\<lambda>f. ''float'')\<rparr>"

definition store_of :: "ndarray \<Rightarrow> heap" where
  "store_of arr =
     \<lparr>arrays = (\<lambda>p. arr), n_arrays = 1,
      xarrays = (\<lambda>r. \<lparr>da_dims = [], da_coords = (\<lambda>n. None), da_values = 0, da_label = []\<rparr>)\<rparr>"

text \<open>The defaults of the signature (lines 66-80), for the array at address 0.\<close>

definition default_args :: args where
  "default_args =
     \<lparr>a_img = ArrRef 0, a_zmin = None, a_zmax = None, a_origin = None,
      a_labels = Some (\<lambda>k. None), a_color_continuous_scale = None,
      a_color_continuous_midpoint = None, a_range_color = None, a_title = None,
      a_template = None, a_width = None, a_height = None, a_aspect = None\<rparr>"

definition args_with :: "zval option \<Rightarrow> zval option \<Rightarrow> zval option list option \<Rightarrow> args" where
  "args_with lo hi rc = default_args\<lparr>a_zmin := lo, a_zmax := hi, a_range_color := rc\<rparr>"

definition rgb_uint8 :: ndarray where
  "rgb_uint8 = \<lparr>shape = [1, 1, 3], buf = Ints np_ubyte [10, 20, 30]\<rparr>"

definition rgb_float :: "rat \<Rightarrow> ndarray" where
  "rgb_float m = \<lparr>shape = [1, 1, 3], buf = Floats np_double [Fin 0, Fin m, NaN]\<rparr>"

definition gray_int :: ndarray where
  "gray_int = \<lparr>shape = [1, 2], buf = Ints np_int [3, 40]\<rparr>"

definition gray_bool :: ndarray where
  "gray_bool = \<lparr>shape = [1, 2], buf = Bools [True, False]\<rparr>"

definition bad_shape :: ndarray where
  "bad_shape = \<lparr>shape = [4, 5, 2], buf = Ints np_int (replicate 40 0)\<rparr>"

text \<open>
  A store with a labelled array at address 0: dimensions \<^verbatim>\<open>time\<close> (a date-time
  coordinate) and \<^verbatim>\<open>lon\<close>, over the values at array address 0.
\<close>

definition labelled_store :: heap where
  "labelled_store =
     \<lparr>arrays = (\<lambda>p. gray_int), n_arrays = 1,
      xarrays = (\<lambda>r. \<lparr>da_dims = [''time'', ''lon''],
                       da_coords = (\<lambda>n. if n = ''time'' then Some (DatetimeCoord [''2020-01-01''])
                                      else if n = ''lon'' then Some (NumCoord [PInt 1, PInt 2])
                                      else None),
                       da_values = 0, da_label = ''Temp''\<rparr>)\<rparr>"

text \<open>
  The figures \<^verbatim>\<open>imshow\<close> builds from these inputs under the sample collaborators:
  a heatmap over the array at \<open>p\<close> with the given ends of the colour axis, and an
  image trace with the given per-channel range.
\<close>

definition heatmap_figure :: "addr \<Rightarrow> zval option \<Rightarrow> zval option \<Rightarrow> figure" where
  "heatmap_figure p lo hi =
     \<lparr>fig_data =
        \<lparr>t_type = Heatmap, t_z = p, t_coloraxis = Some ''coloraxis1'', t_zmin = None,
         t_zmax = None, t_x = None, t_y = None, t_hovertemplate = None\<rparr>,
      fig_layout =
        \<lparr>yaxis_autorange = Some AutoReversed, yaxis_constrain = Some ''domain'',
         xaxis_scaleanchor = Some ''y'', xaxis_constrain = Some ''domain'',
         coloraxis1 =
           Some \<lparr>colorscale = Some (ScaleName ''Viridis''), cmid = None, cmin = lo, cmax = hi,
                 colorbar_title = []\<rparr>,
         l_title = None, l_height = None, l_width = None, l_margin_t = None,
         xaxis_title_text = None, yaxis_title_text = None,
         l_template = Some sample_template\<rparr>\<rparr>"

definition image_figure :: "addr \<Rightarrow> zval option \<Rightarrow> zval option \<Rightarrow> figure" where
  "image_figure p lo hi =
     \<lparr>fig_data =
        \<lparr>t_type = Image, t_z = p, t_coloraxis = None, t_zmin = lo, t_zmax = hi,
         t_x = None, t_y = None, t_hovertemplate = None\<rparr>,
      fig_layout = empty_layout\<lparr>l_template := Some sample_template\<rparr>\<rparr>"

section \<open>Sequencing\<close>

lemma and_then_Inr_iff:
  "and_then r f = Inr y \<longleftrightarrow> (\<exists>x. r = Inr x \<and> f x = Inr y)"
  by (cases r) (simp_all add: and_then_def)

lemma and_then_Inl_iff:
  "and_then r f = Inl e \<longleftrightarrow> r = Inl e \<or> (\<exists>x. r = Inr x \<and> f x = Inl e)"
  by (cases r) (simp_all add: and_then_def)

lemma and_then_simps [simp]:
  "and_then (Inl e) f = Inl e" "and_then (Inr x) f = f x"
  by (simp_all add: and_then_def)

lemma collaborator_simps [simp]:
  "collaborator (Inl m) = Inl (CollaboratorError m)" "collaborator (Inr x) = Inr x"
  by (simp_all add: collaborator_def)

lemma collaborator_Inr_iff: "collaborator r = Inr x \<longleftrightarrow> r = Inr x"
  by (cases r) simp_all

lemma collaborator_Inl: "collaborator r = Inl e \<Longrightarrow> \<exists>m. e = CollaboratorError m"
  by (cases r) auto

lemma getitem_Inr_iff: "getitem what xs i = Inr x \<longleftrightarrow> i < length xs \<and> x = xs ! i"
  by (auto simp: getitem_def)

section \<open>The binary64 thresholds\<close>

text \<open>
  The simplifier evaluates the rounding on numerals; these are the values Python computes
  for \<^verbatim>\<open>1.05\<close>, \<^verbatim>\<open>1 * rtol\<close>, \<^verbatim>\<open>255 * rtol\<close> (267.75) and \<^verbatim>\<open>65535 * rtol\<close>
  (68811.75).
\<close>

lemma floor_rat_numeral [simp]: "\<lfloor>numeral a / numeral b :: rat\<rfloor> = numeral a div numeral b"
  by (metis floor_divide_of_int_eq of_int_numeral)

lemma ceiling_rat_numeral [simp]: "\<lceil>numeral a / numeral b :: rat\<rceil> = - (- numeral a div numeral b)"
  by (metis ceiling_divide_eq_div of_int_numeral)

lemmas binary64_eval = binary64_def ilog2_def round_half_even_def compute_floorlog Let_def

lemma rtol_value: "rtol = 4728779608739021 / 4503599627370496"
  by (simp add: rtol_def binary64_eval)

lemma fmul_1_rtol: "fmul 1 rtol = 4728779608739021 / 4503599627370496"
  by (simp add: fmul_def rtol_value binary64_eval)

lemma fmul_255_rtol: "fmul 255 rtol = 1071 / 4"
  by (simp add: fmul_def rtol_value binary64_eval)

lemma fmul_65535_rtol: "fmul 65535 rtol = 275247 / 4"
  by (simp add: fmul_def rtol_value binary64_eval)

lemma fmul_2_32_rtol: "fmul 4294967296 rtol = 4728779608739021 / 1048576"
  by (simp add: fmul_def rtol_value binary64_eval)

lemma within_tolerance_Fin:
  "within_tolerance (PFloat (Fin m)) c = (m \<le> fmul (of_int c) rtol)"
  by (simp add: within_tolerance_def num_le_def)

lemma within_tolerance_thresholds:
  "within_tolerance (PFloat (Fin m)) 1 = (m \<le> 4728779608739021 / 4503599627370496) \<and>
   within_tolerance (PFloat (Fin m)) 255 = (m \<le> 1071 / 4) \<and>
   within_tolerance (PFloat (Fin m)) 65535 = (m \<le> 275247 / 4)"
  by (simp add: within_tolerance_Fin fmul_1_rtol fmul_255_rtol fmul_65535_rtol)

section \<open>The inferred maximum\<close>

lemma integer_ranges_lookup:
  "map_of integer_ranges (DInt t) = Some (iinfo_min t, iinfo_max t)"
  by (cases t) (simp_all add: integer_ranges_def integer_types_def)

lemma DInt_in_integer_types: "DInt t \<in> set (map DInt integer_types)"
  by (cases t) (simp_all add: integer_types_def)

lemma not_integer_types: "DBool \<notin> set (map DInt integer_types)" "DFloat ft \<notin> set (map DInt integer_types)"
  by auto

lemma infer_zmax_integer:
  "buf img = Ints t xs \<Longrightarrow> infer_zmax_from_type img = Inr (PInt (iinfo_max t))"
  by (simp add: infer_zmax_from_type_def integer_ranges_lookup DInt_in_integer_types del: set_map)

lemma infer_zmax_float:
  assumes "buf img = Floats ft fs"
  shows "infer_zmax_from_type img =
     (case finite_max img of
        Inl e \<Rightarrow> Inl e
      | Inr m \<Rightarrow>
          Inr (PInt (if within_tolerance m 1 then 1
                     else if within_tolerance m 255 then 255
                     else if within_tolerance m 65535 then 65535
                     else 2 ^ 32)))"
  using assms not_integer_types(2) [of ft]
  by (simp add: infer_zmax_from_type_def finite_max_def within_tolerance_def
      split: sum.splits del: set_map)

lemma finite_max_rgb_float: "0 \<le> m \<Longrightarrow> finite_max (rgb_float m) = Inr (PFloat (Fin m))"
  by (simp add: finite_max_def rgb_float_def reduce_max_def isfinite_def np_maximum_def isnan_def num_le_def)

text \<open>
  Claim C4, as amended. For an array of a fixed-width integer type the inferred maximum is
  the largest value of the type. For a floating-point array whose largest finite element
  is \<open>m\<close>, it is the least of 1, 255 and 65535 that is at least \<open>m\<close> with the 5%
  tolerance (\<^verbatim>\<open>m <= c * 1.05\<close>) when there is one, and \<open>2^32\<close> otherwise, whether
  or not \<open>2^32\<close> is at least \<open>m\<close>; an array with no finite element raises the
  \<^verbatim>\<open>ValueError\<close> of the empty maximum.
\<close>

theorem infer_zmax_from_type_result:
  "(buf img = Ints t xs \<longrightarrow> infer_zmax_from_type img = Inr (PInt (iinfo_max t))) \<and>
   (buf img = Floats ft fs \<and> finite_max img = Inr m \<longrightarrow>
      (\<exists>r. infer_zmax_from_type img = Inr (PInt r) \<and> r \<in> {1, 255, 65535, 2 ^ 32} \<and>
           (r \<noteq> 2 ^ 32 \<longrightarrow> within_tolerance m r) \<and>
           (\<forall>c\<in>{1, 255, 65535}. within_tolerance m c \<longrightarrow> r \<le> c))) \<and>
   (buf img = Floats ft fs \<and> finite_max img = Inl e \<longrightarrow> infer_zmax_from_type img = Inl e)"
proof (intro conjI impI)
  assume "buf img = Ints t xs"
  then show "infer_zmax_from_type img = Inr (PInt (iinfo_max t))"
    by (rule infer_zmax_integer)
next
  assume a: "buf img = Floats ft fs \<and> finite_max img = Inl e"
  then show "infer_zmax_from_type img = Inl e"
    by (simp add: infer_zmax_float [of img ft fs])
next
  assume a: "buf img = Floats ft fs \<and> finite_max img = Inr m"
  define r :: int where "r = (if within_tolerance m 1 then 1
                     else if within_tolerance m 255 then 255
                     else if within_tolerance m 65535 then 65535
                     else 2 ^ 32)"
  have res: "infer_zmax_from_type img = Inr (PInt r)"
    using a by (simp add: infer_zmax_float [of img ft fs] r_def)
  have mem: "r \<in> {1, 255, 65535, 2 ^ 32}"
    by (simp add: r_def)
  have tol: "r \<noteq> 2 ^ 32 \<longrightarrow> within_tolerance m r"
    by (simp add: r_def)
  have least: "\<forall>c\<in>{1, 255, 65535}. within_tolerance m c \<longrightarrow> r \<le> c"
    by (simp add: r_def)
  from res mem tol least
  show "\<exists>r. infer_zmax_from_type img = Inr (PInt r) \<and> r \<in> {1, 255, 65535, 2 ^ 32} \<and>
           (r \<noteq> 2 ^ 32 \<longrightarrow> within_tolerance m r) \<and>
           (\<forall>c\<in>{1, 255, 65535}. within_tolerance m c \<longrightarrow> r \<le> c)"
    by blast
qed

text \<open>
  A largest element of 0.98 infers 1, one of 200 infers 255, and a 16-bit unsigned array
  infers 65535.
\<close>

theorem infer_zmax_from_type_result_witness:
  "finite_max (rgb_float (98 / 100)) = Inr (PFloat (Fin (98 / 100))) \<and>
   infer_zmax_from_type (rgb_float (98 / 100)) = Inr (PInt 1) \<and>
   finite_max (rgb_float 200) = Inr (PFloat (Fin 200)) \<and>
   infer_zmax_from_type (rgb_float 200) = Inr (PInt 255) \<and>
   infer_zmax_from_type \<lparr>shape = [1, 1, 3], buf = Ints np_ushort [1, 2, 3]\<rparr> = Inr (PInt 65535)"
proof -
  have b: "buf (rgb_float q) = Floats np_double [Fin 0, Fin q, NaN]" for q
    by (simp add: rgb_float_def)
  have m1: "finite_max (rgb_float (98 / 100)) = Inr (PFloat (Fin (98 / 100)))"
    by (simp add: finite_max_rgb_float)
  have m2: "finite_max (rgb_float 200) = Inr (PFloat (Fin 200))"
    by (simp add: finite_max_rgb_float)
  have t1: "within_tolerance (PFloat (Fin (98 / 100))) 1"
    by (simp add: within_tolerance_Fin fmul_1_rtol)
  have t2: "\<not> within_tolerance (PFloat (Fin 200)) 1" "within_tolerance (PFloat (Fin 200)) 255"
    by (simp_all add: within_tolerance_Fin fmul_1_rtol fmul_255_rtol)
  have one: "infer_zmax_from_type (rgb_float (98 / 100)) = Inr (PInt 1)"
    using infer_zmax_from_type_result
      [of "rgb_float (98 / 100)" np_ushort "[]" np_double "[Fin 0, Fin (98 / 100), NaN]"
          "PFloat (Fin (98 / 100))" "ValueError []"] b m1 t1
    by auto
  have two: "infer_zmax_from_type (rgb_float 200) = Inr (PInt 255)"
    using infer_zmax_from_type_result
      [of "rgb_float 200" np_ushort "[]" np_double "[Fin 0, Fin 200, NaN]"
          "PFloat (Fin 200)" "ValueError []"] b m2 t2
    by auto
  have three: "infer_zmax_from_type \<lparr>shape = [1, 1, 3], buf = Ints np_ushort [1, 2, 3]\<rparr> =
      Inr (PInt 65535)"
    using infer_zmax_from_type_result
      [of "\<lparr>shape = [1, 1, 3], buf = Ints np_ushort [1, 2, 3]\<rparr>" np_ushort "[1, 2, 3]"
          np_double "[]" "PInt 0" "ValueError []"]
    by (simp add: iinfo_max_def)
  from one two three m1 m2 show ?thesis by simp
qed

text \<open>
  As stated, claim C4 fails for a float image whose largest element is \<open>10^10\<close>: the
  inferred maximum is \<open>2^32\<close>, which is not at least \<open>10^10\<close> even with the tolerance.
\<close>

theorem infer_zmax_beyond_2_32:
  "finite_max (rgb_float (10 ^ 10)) = Inr (PFloat (Fin (10 ^ 10))) \<and>
   infer_zmax_from_type (rgb_float (10 ^ 10)) = Inr (PInt 4294967296) \<and>
   \<not> within_tolerance (PFloat (Fin (10 ^ 10))) 4294967296"
proof -
  have m: "finite_max (rgb_float (10 ^ 10)) = Inr (PFloat (Fin (10 ^ 10)))"
    by (simp add: finite_max_rgb_float)
  have t: "\<not> within_tolerance (PFloat (Fin (10 ^ 10))) 1"
     "\<not> within_tolerance (PFloat (Fin (10 ^ 10))) 255"
     "\<not> within_tolerance (PFloat (Fin (10 ^ 10))) 65535"
     "\<not> within_tolerance (PFloat (Fin (10 ^ 10))) 4294967296"
    by (simp_all add: within_tolerance_Fin fmul_1_rtol fmul_255_rtol fmul_65535_rtol fmul_2_32_rtol)
  have r: "infer_zmax_from_type (rgb_float (10 ^ 10)) = Inr (PInt 4294967296)"
    using m t by (simp add: infer_zmax_float [of _ np_double "[Fin 0, Fin (10 ^ 10), NaN]"] rgb_float_def)
  from m r t(4) show ?thesis by simp
qed

section \<open>Vectorizing a range value\<close>

lemma vectorize_zvalue_error_iff:
  "(\<exists>e. vectorize_zvalue frepr z = Inl e) \<longleftrightarrow>
   (\<exists>xs. z = Some (Seq xs) \<and> length xs \<noteq> 1 \<and> length xs \<noteq> 3 \<and> length xs \<noteq> 4)"
  by (auto simp: vectorize_zvalue_def split: option.splits zval.splits)

text \<open>
  Claim C5. Vectorizing a \<^verbatim>\<open>zmin\<close>/\<^verbatim>\<open>zmax\<close> value: a scalar or a one-element value
  goes to all three colour channels with alpha 1, a three-element value gets alpha 1
  appended, a four-element value is returned unchanged, and every other length raises
  \<^verbatim>\<open>ValueError\<close> with a message that names the accepted lengths and prints the
  value; the call raises for exactly those other lengths.
\<close>

theorem vectorize_zvalue_by_length:
  "vectorize_zvalue frepr (Some (Scalar v)) = Inr (Some (Seq [v, v, v, PInt 1])) \<and>
   vectorize_zvalue frepr (Some (Seq [x])) = Inr (Some (Seq [x, x, x, PInt 1])) \<and>
   vectorize_zvalue frepr (Some (Seq [x, y, z])) = Inr (Some (Seq [x, y, z, PInt 1])) \<and>
   vectorize_zvalue frepr (Some (Seq [x, y, z, w])) = Inr (Some (Seq [x, y, z, w])) \<and>
   (length xs \<notin> {1, 3, 4} \<longrightarrow>
      vectorize_zvalue frepr (Some (Seq xs)) =
        Inl (ValueError
          (''zmax can be a scalar, or an iterable of length 1, 3 or 4. A value of '' @
           py_str frepr (Seq xs) @ '' was passed for zmax.''))) \<and>
   ((\<exists>e. vectorize_zvalue frepr (Some (Seq xs)) = Inl e) \<longleftrightarrow> length xs \<notin> {1, 3, 4})"
proof -
  have scalar: "vectorize_zvalue frepr (Some (Scalar v)) = Inr (Some (Seq [v, v, v, PInt 1]))"
    by (simp add: vectorize_zvalue_def numeral_3_eq_3)
  have one: "vectorize_zvalue frepr (Some (Seq [x])) = Inr (Some (Seq [x, x, x, PInt 1]))"
    by (simp add: vectorize_zvalue_def numeral_3_eq_3)
  have three: "vectorize_zvalue frepr (Some (Seq [x, y, z])) = Inr (Some (Seq [x, y, z, PInt 1]))"
    by (simp add: vectorize_zvalue_def)
  have four: "vectorize_zvalue frepr (Some (Seq [x, y, z, w])) = Inr (Some (Seq [x, y, z, w]))"
    by (simp add: vectorize_zvalue_def)
  have other: "length xs \<notin> {1, 3, 4} \<longrightarrow>
      vectorize_zvalue frepr (Some (Seq xs)) =
        Inl (ValueError
          (''zmax can be a scalar, or an iterable of length 1, 3 or 4. A value of '' @
           py_str frepr (Seq xs) @ '' was passed for zmax.''))"
    by (simp add: vectorize_zvalue_def)
  have iff: "(\<exists>e. vectorize_zvalue frepr (Some (Seq xs)) = Inl e) \<longleftrightarrow> length xs \<notin> {1, 3, 4}"
    using vectorize_zvalue_error_iff [of frepr "Some (Seq xs)"] by auto
  from scalar one three four other iff show ?thesis by blast
qed

text \<open>
  The scalar 5 gives \<^verbatim>\<open>[5, 5, 5, 1]\<close>, \<^verbatim>\<open>[1, 2, 3]\<close> gives \<^verbatim>\<open>[1, 2, 3, 1]\<close>,
  \<^verbatim>\<open>[1, 2, 3, 4]\<close> is unchanged and \<^verbatim>\<open>[1, 2]\<close> raises.
\<close>

theorem vectorize_zvalue_by_length_witness:
  "vectorize_zvalue (\<lambda>f. ''float'') (Some (Scalar (PInt 5))) =
     Inr (Some (Seq [PInt 5, PInt 5, PInt 5, PInt 1])) \<and>
   vectorize_zvalue (\<lambda>f. ''float'') (Some (Seq [PInt 1, PInt 2, PInt 3])) =
     Inr (Some (Seq [PInt 1, PInt 2, PInt 3, PInt 1])) \<and>
   vectorize_zvalue (\<lambda>f. ''float'') (Some (Seq [PInt 1, PInt 2, PInt 3, PInt 4])) =
     Inr (Some (Seq [PInt 1, PInt 2, PInt 3, PInt 4])) \<and>
   length [PInt 1, PInt 2] \<notin> {1, 3, 4 :: nat} \<and>
   vectorize_zvalue (\<lambda>f. ''float'') (Some (Seq [PInt 1, PInt 2])) =
     Inl (ValueError
       ''zmax can be a scalar, or an iterable of length 1, 3 or 4. A value of [1, 2] was passed for zmax.'')"
proof -
  have len: "length [PInt 1, PInt 2] \<notin> {1, 3, 4 :: nat}" by simp
  have str: "py_str (\<lambda>f. ''float'') (Seq [PInt 1, PInt 2]) = ''[1, 2]''"
    by code_simp
  from vectorize_zvalue_by_length
    [of "\<lambda>f. ''float''" "PInt 5" "PInt 1" "PInt 2" "PInt 3" "PInt 4" "[PInt 1, PInt 2]"]
  show ?thesis using len str by simp
qed

section \<open>The store under the first steps\<close>

lemma datetime_to_text_values:
  "datetime_to_text frepr d ax = Inr d' \<Longrightarrow> da_values d' = da_values d \<and> da_dims d' = da_dims d \<and> da_label d' = da_label d"
  by (auto simp: datetime_to_text_def split: option.splits if_splits)

lemma coords_to_text_frame:
  "coords_to_text frepr h r axs = (res, h1) \<Longrightarrow>
     arrays h1 = arrays h \<and> n_arrays h1 = n_arrays h \<and>
     (\<forall>x. da_values (xarrays h1 x) = da_values (xarrays h x)) \<and>
     (\<forall>x. x \<noteq> r \<longrightarrow> xarrays h1 x = xarrays h x)"
proof (induction axs arbitrary: h)
  case Nil
  then show ?case by simp
next
  case (Cons ax axs)
  show ?case
  proof (cases "datetime_to_text frepr (xarrays h r) ax")
    case (Inl e)
    with Cons.prems show ?thesis by simp
  next
    case (Inr d)
    let ?h = "h\<lparr>xarrays := (xarrays h)(r := d)\<rparr>"
    from Inr Cons.prems have "coords_to_text frepr ?h r axs = (res, h1)" by simp
    from Cons.IH [OF this] datetime_to_text_values [OF Inr] show ?thesis by auto
  qed
qed

lemma labelled_input_frame:
  assumes "labelled_input env h a = (res, h1)"
  shows "arrays h1 = arrays h \<and> n_arrays h1 = n_arrays h \<and>
         asanyarray h1 (a_img a) = asanyarray h (a_img a)"
proof (cases "xarray_imported env")
  case False
  with assms show ?thesis by (simp add: labelled_input_def)
next
  case True
  show ?thesis
  proof (cases "a_img a")
    case (ArrRef p)
    with True assms show ?thesis by (simp add: labelled_input_def)
  next
    case (XrRef r)
    have vals: "arrays h1 = arrays h \<and> n_arrays h1 = n_arrays h \<and>
         (\<forall>x. da_values (xarrays h1 x) = da_values (xarrays h x))"
      using assms True XrRef
      by (auto simp: labelled_input_def Let_def simp del: coords_to_text.simps
          split: sum.splits prod.splits option.splits dest!: coords_to_text_frame)
    with XrRef show ?thesis by simp
  qed
qed

lemma labelled_input_plain:
  "a_img a = ArrRef p \<Longrightarrow>
     labelled_input env h a =
       (Inr \<lparr>v_x_label = None, v_y_label = None, v_x = None, v_y = None,
             v_img_is_xarray = False, v_aspect = a_aspect a, v_z_name = []\<rparr>, h)"
  by (simp add: labelled_input_def Let_def)

lemma alloc_frame:
  "alloc h arr = (h1, q) \<Longrightarrow>
     q = n_arrays h \<and> n_arrays h1 = Suc (n_arrays h) \<and> arrays h1 q = arr \<and>
     xarrays h1 = xarrays h \<and> (\<forall>x. x \<noteq> n_arrays h \<longrightarrow> arrays h1 x = arrays h x)"
  by (auto simp: alloc_def)

lemma dtype_eq_bool: "dtype_eq (img_dtype arr) (ScalarTypeClass DBool) \<longleftrightarrow> (\<exists>bs. buf arr = Bools bs)"
  by (cases "buf arr") (simp_all add: dtype_eq_def img_dtype_def)

lemma cast_bools_not_bool:
  "\<forall>bs. buf (arrays h p) \<noteq> Bools bs \<Longrightarrow> cast_bools h p = (p, h)"
  by (simp add: cast_bools_def dtype_eq_bool)

lemma mul_uint8_255_bools:
  "mul_uint8 255 (map (\<lambda>b. if b then 1 else 0) bs) = map (\<lambda>b. if b then 255 else 0) bs"
  by (induction bs) (simp_all add: mul_uint8_def)

lemma cast_bools_bool:
  assumes "buf (arrays h p) = Bools bs" and "cast_bools h p = (q, h2)"
  shows "q = Suc (n_arrays h) \<and> n_arrays h2 = Suc (Suc (n_arrays h)) \<and>
         arrays h2 q = \<lparr>shape = shape (arrays h p),
                          buf = Ints np_ubyte (map (\<lambda>b. if b then 255 else 0) bs)\<rparr> \<and>
         xarrays h2 = xarrays h \<and> (\<forall>x. x < n_arrays h \<longrightarrow> arrays h2 x = arrays h x)"
  using assms
  by (auto simp: cast_bools_def dtype_eq_bool alloc_def Let_def mul_uint8_255_bools)

lemma cast_bools_frame:
  assumes "cast_bools h p = (q, h2)"
  shows "xarrays h2 = xarrays h \<and> (\<forall>x. x < n_arrays h \<longrightarrow> arrays h2 x = arrays h x) \<and>
         shape (arrays h2 q) = shape (arrays h p)"
proof (cases "\<exists>bs. buf (arrays h p) = Bools bs")
  case True
  then obtain bs where "buf (arrays h p) = Bools bs" ..
  from cast_bools_bool [OF this assms] show ?thesis by auto
next
  case False
  with assms cast_bools_not_bool [of h p] show ?thesis by auto
qed

lemma image_array_eq:
  "cast_bools h (asanyarray h (a_img a)) = (q, h2) \<Longrightarrow> image_array h a = arrays h2 q"
  by (simp add: image_array_def)

lemma cast_bools_array_cong:
  assumes "arrays h1 = arrays h" and "n_arrays h1 = n_arrays h"
  shows "(case cast_bools h1 p of (q, h2) \<Rightarrow> arrays h2 q) =
         (case cast_bools h p of (q, h2) \<Rightarrow> arrays h2 q)"
  using assms by (simp add: cast_bools_def alloc_def Let_def)

lemma image_array_after_labels:
  assumes "labelled_input env h a = (res, h1)"
    and "cast_bools h1 (asanyarray h1 (a_img a)) = (p, h2)"
  shows "arrays h2 p = image_array h a"
proof -
  from labelled_input_frame [OF assms(1)]
  have f: "arrays h1 = arrays h" "n_arrays h1 = n_arrays h"
    "asanyarray h1 (a_img a) = asanyarray h (a_img a)" by simp_all
  from cast_bools_array_cong [OF f(1,2), of "asanyarray h (a_img a)"] assms(2) f(3)
  show ?thesis by (simp add: image_array_def)
qed

section \<open>The steps of imshow\<close>

text \<open>The function as its steps, once the cascade and the labelled input have succeeded.\<close>

lemma imshow_steps:
  assumes "apply_default_cascade env a = Inr args"
    and "labelled_input env h a = (Inr v0, h1)"
    and "cast_bools h1 (asanyarray h1 (a_img a)) = (p, h2)"
  shows "imshow env h a =
     (and_then
        (build_trace env args a (default_aspect (apply_labels (a_labels a) v0)) p (image_array h a))
        (finish args (default_aspect (apply_labels (a_labels a) v0)) (image_array h a)),
      h2)"
  using assms image_array_after_labels [OF assms(2,3)]
  by (simp add: imshow_def)

lemma imshow_returns:
  assumes "fst (imshow env h a) = Inr fig"
  obtains args v0 h1 p built where
    "apply_default_cascade env a = Inr args"
    "labelled_input env h a = (Inr v0, h1)"
    "cast_bools h1 (asanyarray h1 (a_img a)) = (p, snd (imshow env h a))"
    "build_trace env args a (default_aspect (apply_labels (a_labels a) v0)) p (image_array h a) = Inr built"
    "finish args (default_aspect (apply_labels (a_labels a) v0)) (image_array h a) built = Inr fig"
proof -
  obtain args where c: "apply_default_cascade env a = Inr args"
    using assms by (cases "apply_default_cascade env a") (simp_all add: imshow_def)
  obtain r h1 where l: "labelled_input env h a = (r, h1)" by (cases "labelled_input env h a")
  obtain v0 where r: "r = Inr v0"
    using assms c l by (cases r) (simp_all add: imshow_def)
  obtain p h2 where b: "cast_bools h1 (asanyarray h1 (a_img a)) = (p, h2)"
    by (cases "cast_bools h1 (asanyarray h1 (a_img a))")
  note s = imshow_steps [OF c l [unfolded r] b]
  from assms s obtain built where
    "build_trace env args a (default_aspect (apply_labels (a_labels a) v0)) p (image_array h a) = Inr built"
    "finish args (default_aspect (apply_labels (a_labels a) v0)) (image_array h a) built = Inr fig"
    by (auto simp: and_then_Inr_iff)
  with c l r b s that show ?thesis by simp
qed

subsection \<open>Assembling keeps the trace and the colour axis\<close>

lemma labelled_output_keeps:
  "labelled_output v img tr lay = Inr out \<Longrightarrow>
     t_type (fst out) = t_type tr \<and> t_z (fst out) = t_z tr \<and>
     t_zmin (fst out) = t_zmin tr \<and> t_zmax (fst out) = t_zmax tr \<and>
     coloraxis1 (snd out) = coloraxis1 lay"
  by (auto simp: labelled_output_def and_then_Inr_iff split: if_splits)

lemma finish_keeps:
  assumes "finish args v img built = Inr fig"
  shows "t_type (fig_data fig) = t_type (fst built) \<and> t_z (fig_data fig) = t_z (fst built) \<and>
     t_zmin (fig_data fig) = t_zmin (fst built) \<and> t_zmax (fig_data fig) = t_zmax (fst built) \<and>
     coloraxis1 (fig_layout fig) = coloraxis1 (snd built)"
proof -
  from assms obtain patch out where
    o: "labelled_output v img (fst built)
          ((snd built)\<lparr>l_title := fst patch, l_height := fst (snd patch),
                       l_width := fst (snd (snd patch)),
                       l_margin_t := snd (snd (snd patch))\<rparr>) = Inr out"
    and f: "fig = \<lparr>fig_data = fst out, fig_layout = (snd out)\<lparr>l_template := a_template args\<rparr>\<rparr>"
    by (auto simp: finish_def and_then_Inr_iff)
  from labelled_output_keeps [OF o] f show ?thesis by simp
qed

subsection \<open>Choosing the branch\<close>

lemma build_trace_heatmap:
  "ndim img = 2 \<Longrightarrow> build_trace env args a v p img = heatmap_branch env args a v p img"
  by (simp add: build_trace_def)

lemma build_trace_image:
  "multichannel img \<Longrightarrow> build_trace env args a v p img = image_branch env a p img"
  by (simp add: build_trace_def multichannel_def)

lemma build_trace_other:
  "ndim img \<noteq> 2 \<Longrightarrow> \<not> multichannel img \<Longrightarrow>
     build_trace env args a v p img = Inl (shape_error (shape img))"
  by (auto simp: build_trace_def multichannel_def)

subsection \<open>What the branches return\<close>

lemma heatmap_range_Inr:
  assumes "heatmap_range img zmin zmax rc = Inr r"
  shows "(\<forall>x xs. rc = Some (x # xs) \<longrightarrow> r = x # xs) \<and>
         (rc = None \<or> rc = Some [] \<longrightarrow>
            (\<forall>lo hi. zmin = Some lo \<and> zmax = Some hi \<longrightarrow> r = [Some lo, Some hi]) \<and>
            (\<forall>lo. zmin = Some lo \<and> zmax = None \<longrightarrow>
               (\<exists>m. amax img = Inr m \<and> r = [Some lo, Some (Scalar m)])) \<and>
            (\<forall>hi. zmin = None \<and> zmax = Some hi \<longrightarrow>
               (\<exists>m. amin img = Inr m \<and> r = [Some (Scalar m), Some hi])) \<and>
            (zmin = None \<and> zmax = None \<longrightarrow> r = [None, None]))"
  using assms
  by (auto simp: heatmap_range_def py_or_def and_then_Inr_iff split: if_splits)

lemma heatmap_branch_Inr:
  assumes "heatmap_branch env args a v p img = Inr built"
  shows "\<exists>r cs. heatmap_range img (a_zmin a) (a_zmax a) (a_range_color a) = Inr r \<and>
           1 < length r \<and> t_type (fst built) = Heatmap \<and> t_z (fst built) = p \<and>
           coloraxis1 (snd built) =
             Some \<lparr>colorscale = cs, cmid = a_color_continuous_midpoint a,
                   cmin = r ! 0, cmax = r ! 1, colorbar_title = v_z_name v\<rparr>"
  using assms
  by (auto simp: heatmap_branch_def Let_def and_then_Inr_iff getitem_Inr_iff)

lemma py_is_dtype_instance [simp]: "py_is (img_dtype img) (ScalarTypeClass d) = False"
  by (simp add: py_is_def img_dtype_def)

lemma image_branch_Inr:
  assumes "image_branch env a p img = Inr built"
  shows "t_type (fst built) = Image \<and> t_z (fst built) = p \<and>
         vectorize_zvalue (float_repr env) (a_zmin a) = Inr (t_zmin (fst built)) \<and>
         (a_zmax a = None \<longrightarrow>
            (\<exists>m. infer_zmax_from_type img = Inr m \<and>
                 vectorize_zvalue (float_repr env) (Some (Scalar m)) = Inr (t_zmax (fst built)))) \<and>
         (a_zmax a \<noteq> None \<longrightarrow>
            vectorize_zvalue (float_repr env) (a_zmax a) = Inr (t_zmax (fst built)))"
  using assms
  by (auto simp: image_branch_def and_then_Inr_iff split: if_splits)

lemma vectorize_zvalue_Inr:
  assumes "vectorize_zvalue frepr z = Inr r"
  shows "(z = None \<longrightarrow> r = None) \<and>
         (z \<noteq> None \<longrightarrow> four_elements r \<and> (\<not> alpha_supplied z \<longrightarrow> opaque_alpha r))"
  using assms
  by (auto simp: vectorize_zvalue_def four_elements_def alpha_supplied_def opaque_alpha_def
      numeral_3_eq_3 nth_append
      split: option.splits zval.splits if_splits)

lemma build_trace_z:
  assumes "build_trace env args a v p img = Inr built"
  shows "t_z (fst built) = p"
proof -
  from assms have
    "heatmap_branch env args a v p img = Inr built \<or> image_branch env a p img = Inr built"
    by (auto simp: build_trace_def split: if_splits)
  with heatmap_branch_Inr [of env args a v p img built] image_branch_Inr [of env a p img built]
  show ?thesis by auto
qed

lemma color_range_built:
  assumes "fst (imshow env h a) = Inr fig" and "ndim (image_array h a) = 2"
  shows "\<exists>r. heatmap_range (image_array h a) (a_zmin a) (a_zmax a) (a_range_color a) = Inr r \<and>
             1 < length r \<and> color_range fig = Some (r ! 0, r ! 1)"
proof -
  from assms(1) obtain args v0 h1 p built where
    b: "build_trace env args a (default_aspect (apply_labels (a_labels a) v0)) p (image_array h a) = Inr built"
    and f: "finish args (default_aspect (apply_labels (a_labels a) v0)) (image_array h a) built = Inr fig"
    by (rule imshow_returns)
  from b assms(2) have
    "heatmap_branch env args a (default_aspect (apply_labels (a_labels a) v0)) p (image_array h a) = Inr built"
    by (simp add: build_trace_heatmap)
  from heatmap_branch_Inr [OF this] finish_keeps [OF f]
  show ?thesis by (auto simp: color_range_def)
qed

lemma channel_range_built:
  assumes "fst (imshow env h a) = Inr fig" and "multichannel (image_array h a)"
  shows "vectorize_zvalue (float_repr env) (a_zmin a) = Inr (t_zmin (fig_data fig)) \<and>
         (a_zmax a = None \<longrightarrow>
            (\<exists>m. infer_zmax_from_type (image_array h a) = Inr m \<and>
                 vectorize_zvalue (float_repr env) (Some (Scalar m)) = Inr (t_zmax (fig_data fig)))) \<and>
         (a_zmax a \<noteq> None \<longrightarrow>
            vectorize_zvalue (float_repr env) (a_zmax a) = Inr (t_zmax (fig_data fig)))"
proof -
  from assms(1) obtain args v0 h1 p built where
    b: "build_trace env args a (default_aspect (apply_labels (a_labels a) v0)) p (image_array h a) = Inr built"
    and f: "finish args (default_aspect (apply_labels (a_labels a) v0)) (image_array h a) built = Inr fig"
    by (rule imshow_returns)
  from b assms(2) have "image_branch env a p (image_array h a) = Inr built"
    by (simp add: build_trace_image)
  from image_branch_Inr [OF this] finish_keeps [OF f]
  show ?thesis by simp
qed

lemma heatmap_range_only_zmin:
  "heatmap_range img (Some lo) None None =
     and_then (amax img) (\<lambda>m. Inr [Some lo, Some (Scalar m)])"
  by (cases "amax img") (simp_all add: heatmap_range_def py_or_def)

lemma heatmap_range_only_zmax:
  "heatmap_range img None (Some hi) None =
     and_then (amin img) (\<lambda>m. Inr [Some (Scalar m), Some hi])"
  by (cases "amin img") (simp_all add: heatmap_range_def py_or_def)

subsection \<open>When the call returns\<close>

text \<open>
  For a plain array the call returns once the collaborators have: a 2D array needs an
  element (for its minimum and maximum), a multichannel one a \<^verbatim>\<open>zmin\<close> of an accepted
  length and an inferred maximum.
\<close>

lemma finish_plain_returns:
  assumes "\<not> v_img_is_xarray v" and "a_template args = Some t"
  shows "\<exists>fig. finish args v img built = Inr fig"
  using assms by (simp add: finish_def layout_patch_def labelled_output_def Let_def)

lemma reduce_max_nonempty: "xs \<noteq> [] \<Longrightarrow> \<exists>m. reduce_max xs = Inr m"
  by (cases xs) (simp_all add: reduce_max_def)

lemma reduce_min_nonempty: "xs \<noteq> [] \<Longrightarrow> \<exists>m. reduce_min xs = Inr m"
  by (cases xs) (simp_all add: reduce_min_def)

lemma heatmap_range_returns:
  assumes "elems (buf img) \<noteq> []"
  shows "\<exists>lo hi. heatmap_range img zmin zmax None = Inr [lo, hi]"
proof -
  from assms obtain m n where "amax img = Inr m" "amin img = Inr n"
    using reduce_max_nonempty [of "elems (buf img)"] reduce_min_nonempty [of "elems (buf img)"]
    by (auto simp: amax_def amin_def)
  then show ?thesis
    by (cases zmin; cases zmax) (simp_all add: heatmap_range_def py_or_def)
qed

lemma imshow_heatmap_returns:
  assumes "a_img a = ArrRef p"
    and "apply_default_cascade env a = Inr args"
    and "validate_coerce env (a_color_continuous_scale args) = Inr cs"
    and "a_template args = Some t"
    and "ndim (image_array h a) = 2"
    and "elems (buf (image_array h a)) \<noteq> []"
    and "a_range_color a = None"
  shows "\<exists>fig. fst (imshow env h a) = Inr fig"
proof -
  let ?v = "default_aspect (apply_labels (a_labels a)
      \<lparr>v_x_label = None, v_y_label = None, v_x = None, v_y = None,
       v_img_is_xarray = False, v_aspect = a_aspect a, v_z_name = []\<rparr>)"
  obtain q h2 where c: "cast_bools h (asanyarray h (a_img a)) = (q, h2)"
    by (cases "cast_bools h (asanyarray h (a_img a))")
  have x: "\<not> v_img_is_xarray ?v"
    by (simp add: default_aspect_def apply_labels_def Let_def split: option.splits)
  from heatmap_range_returns [OF assms(6)] obtain lo hi where
    r: "heatmap_range (image_array h a) (a_zmin a) (a_zmax a) None = Inr [lo, hi]" by blast
  have "\<exists>built. build_trace env args a ?v q (image_array h a) = Inr built"
    using assms(3,5,7) r
    by (simp add: build_trace_heatmap heatmap_branch_def Let_def getitem_def)
  then obtain built where b: "build_trace env args a ?v q (image_array h a) = Inr built" ..
  from finish_plain_returns [OF x assms(4)] obtain fig where
    "finish args ?v (image_array h a) built = Inr fig" by blast
  with imshow_steps [OF assms(2) labelled_input_plain [OF assms(1)] c] b
  show ?thesis by simp
qed

lemma imshow_image_returns:
  assumes "a_img a = ArrRef p"
    and "apply_default_cascade env a = Inr args"
    and "a_template args = Some t"
    and "multichannel (image_array h a)"
    and "a_zmax a = None"
    and "infer_zmax_from_type (image_array h a) = Inr m"
    and "vectorize_zvalue (float_repr env) (a_zmin a) = Inr lo"
  shows "\<exists>fig. fst (imshow env h a) = Inr fig"
proof -
  let ?v = "default_aspect (apply_labels (a_labels a)
      \<lparr>v_x_label = None, v_y_label = None, v_x = None, v_y = None,
       v_img_is_xarray = False, v_aspect = a_aspect a, v_z_name = []\<rparr>)"
  obtain q h2 where c: "cast_bools h (asanyarray h (a_img a)) = (q, h2)"
    by (cases "cast_bools h (asanyarray h (a_img a))")
  have x: "\<not> v_img_is_xarray ?v"
    by (simp add: default_aspect_def apply_labels_def Let_def split: option.splits)
  have "\<exists>built. build_trace env args a ?v q (image_array h a) = Inr built"
    using assms(4-7)
    by (simp add: build_trace_image image_branch_def vectorize_zvalue_def)
  then obtain built where b: "build_trace env args a ?v q (image_array h a) = Inr built" ..
  from finish_plain_returns [OF x assms(3)] obtain fig where
    "finish args ?v (image_array h a) built = Inr fig" by blast
  with imshow_steps [OF assms(2) labelled_input_plain [OF assms(1)] c] b
  show ?thesis by simp
qed

subsection \<open>Which exceptions the branches raise\<close>

lemma reduce_max_not_shape_error: "reduce_max xs = Inl e \<Longrightarrow> e \<noteq> shape_error sh"
  by (auto simp: reduce_max_def shape_error_def split: list.splits)

lemma reduce_min_not_shape_error: "reduce_min xs = Inl e \<Longrightarrow> e \<noteq> shape_error sh"
  by (auto simp: reduce_min_def shape_error_def split: list.splits)

lemma vectorize_zvalue_not_shape_error:
  "vectorize_zvalue frepr z = Inl e \<Longrightarrow> e \<noteq> shape_error sh"
  by (auto simp: vectorize_zvalue_def shape_error_def split: option.splits zval.splits if_splits)

lemma infer_zmax_not_shape_error:
  "infer_zmax_from_type img = Inl e \<Longrightarrow> e \<noteq> shape_error sh"
  by (auto simp: infer_zmax_from_type_def Let_def shape_error_def
      simp del: set_map
      split: if_splits option.splits sum.splits dest: reduce_max_not_shape_error [where sh = sh])

lemma heatmap_range_not_shape_error:
  "heatmap_range img zmin zmax rc = Inl e \<Longrightarrow> e \<noteq> shape_error sh"
  by (auto simp: heatmap_range_def and_then_Inl_iff amax_def amin_def split: if_splits
      dest: reduce_max_not_shape_error [where sh = sh] reduce_min_not_shape_error [where sh = sh])

lemma getitem_not_shape_error: "getitem what xs i = Inl e \<Longrightarrow> e \<noteq> shape_error sh"
  by (auto simp: getitem_def shape_error_def split: if_splits)

lemma collaborator_not_shape_error: "collaborator r = Inl e \<Longrightarrow> e \<noteq> shape_error sh"
  by (auto simp: shape_error_def dest: collaborator_Inl)

lemma heatmap_branch_not_shape_error:
  "heatmap_branch env args a v p img = Inl e \<Longrightarrow> e \<noteq> shape_error sh"
  by (auto simp: heatmap_branch_def Let_def and_then_Inl_iff
      dest: heatmap_range_not_shape_error [where sh = sh] getitem_not_shape_error [where sh = sh]
        collaborator_not_shape_error [where sh = sh])

lemma image_branch_not_shape_error:
  "image_branch env a p img = Inl e \<Longrightarrow> e \<noteq> shape_error sh"
  by (auto simp: image_branch_def and_then_Inl_iff split: if_splits
      dest: infer_zmax_not_shape_error [where sh = sh]
        vectorize_zvalue_not_shape_error [where sh = sh])

lemma bound_not_shape_error: "bound name v = Inl e \<Longrightarrow> e \<noteq> shape_error sh"
  by (auto simp: bound_def shape_error_def split: option.splits)

lemma layout_patch_not_shape_error: "layout_patch args = Inl e \<Longrightarrow> e \<noteq> shape_error sh"
  by (auto simp: layout_patch_def Let_def shape_error_def split: option.splits if_splits)

lemma labelled_output_not_shape_error:
  "labelled_output v img tr lay = Inl e \<Longrightarrow> e \<noteq> shape_error sh"
  by (auto simp: labelled_output_def and_then_Inl_iff split: if_splits
      dest: bound_not_shape_error [where sh = sh])

lemma finish_not_shape_error: "finish args v img built = Inl e \<Longrightarrow> e \<noteq> shape_error sh"
  by (auto simp: finish_def and_then_Inl_iff
      dest: layout_patch_not_shape_error [where sh = sh]
        labelled_output_not_shape_error [where sh = sh])

subsection \<open>The sample inputs, evaluated\<close>

lemma replicate_3: "replicate 3 x = [x, x, x]"
  by (simp add: numeral_3_eq_3)

lemmas imshow_eval =
  imshow_def sample_env_def sample_cascade_def default_args_def args_with_def store_of_def
  labelled_input_def apply_labels_def default_aspect_def cast_bools_def alloc_def
  dtype_eq_def img_dtype_def py_is_def
  build_trace_def ndim_def heatmap_branch_def heatmap_range_def image_branch_def
  amax_def amin_def reduce_max_def reduce_min_def np_maximum_def np_minimum_def
  isnan_def num_le_def py_or_def getitem_def finish_def layout_patch_def
  labelled_output_def heatmap_figure_def image_figure_def empty_layout_def
  sample_template_def vectorize_zvalue_def image_array_def multichannel_def
  color_range_def channel_range_def mul_uint8_def replicate_3 Let_def

lemma infer_rgb_uint8: "infer_zmax_from_type rgb_uint8 = Inr (PInt 255)"
  by (simp add: infer_zmax_integer [of _ np_ubyte "[10, 20, 30]"] rgb_uint8_def iinfo_max_def)

lemma infer_rgb_half: "infer_zmax_from_type (rgb_float (1 / 2)) = Inr (PInt 1)"
proof -
  have "finite_max (rgb_float (1 / 2)) = Inr (PFloat (Fin (1 / 2)))"
    by (simp add: finite_max_rgb_float)
  moreover have "within_tolerance (PFloat (Fin (1 / 2))) 1"
    by (simp add: within_tolerance_Fin fmul_1_rtol)
  ultimately show ?thesis
    by (simp add: infer_zmax_float [of _ np_double "[Fin 0, Fin (1 / 2), NaN]"] rgb_float_def)
qed

lemma sample_cascade_ignores_labels: "cascade_ignores_labels sample_env"
  by (simp add: cascade_ignores_labels_def sample_env_def sample_cascade_def entries_read_def)

section \<open>The display range of a 2D array\<close>

text \<open>
  Claim C2, as amended. For a 2D array on which \<^verbatim>\<open>imshow\<close> returns: a
  \<^verbatim>\<open>range_color\<close> pair that is given is used as \<^verbatim>\<open>cmin\<close>/\<^verbatim>\<open>cmax\<close>, also when
  \<^verbatim>\<open>zmin\<close> and \<^verbatim>\<open>zmax\<close> are given; without \<^verbatim>\<open>range_color\<close> (absent or empty),
  both of \<^verbatim>\<open>zmin\<close>/\<^verbatim>\<open>zmax\<close> are used when both are given, a missing one is the
  array's minimum or maximum when the other is given, and both ends are unset when
  neither is given.
\<close>

theorem heatmap_display_range:
  assumes "fst (imshow env h a) = Inr fig" and "ndim (image_array h a) = 2"
  shows "(\<forall>lo hi more. a_range_color a = Some (lo # hi # more) \<longrightarrow> color_range fig = Some (lo, hi)) \<and>
         (a_range_color a = None \<or> a_range_color a = Some [] \<longrightarrow>
            (\<forall>lo hi. a_zmin a = Some lo \<and> a_zmax a = Some hi \<longrightarrow>
               color_range fig = Some (Some lo, Some hi)) \<and>
            (\<forall>lo. a_zmin a = Some lo \<and> a_zmax a = None \<longrightarrow>
               (\<exists>m. amax (image_array h a) = Inr m \<and>
                    color_range fig = Some (Some lo, Some (Scalar m)))) \<and>
            (\<forall>hi. a_zmin a = None \<and> a_zmax a = Some hi \<longrightarrow>
               (\<exists>m. amin (image_array h a) = Inr m \<and>
                    color_range fig = Some (Some (Scalar m), Some hi))) \<and>
            (a_zmin a = None \<and> a_zmax a = None \<longrightarrow> color_range fig = Some (None, None)))"
proof -
  from color_range_built [OF assms] obtain r where
    r: "heatmap_range (image_array h a) (a_zmin a) (a_zmax a) (a_range_color a) = Inr r"
    and c: "color_range fig = Some (r ! 0, r ! 1)" by blast
  from heatmap_range_Inr [OF r] c show ?thesis by auto
qed

text \<open>With nothing given, both ends of the colour axis are unset.\<close>

theorem heatmap_display_range_witness:
  "fst (imshow sample_env (store_of gray_int) (args_with None None None)) =
     Inr (heatmap_figure 0 None None) \<and>
   ndim (image_array (store_of gray_int) (args_with None None None)) = 2 \<and>
   a_range_color (args_with None None None) = None \<and>
   a_zmin (args_with None None None) = None \<and>
   a_zmax (args_with None None None) = None \<and>
   color_range (heatmap_figure 0 None None) = Some (None, None) \<and>
   fst (imshow sample_env (store_of gray_int)
          (args_with (Some (Scalar (PInt 10))) None
             (Some [Some (Scalar (PInt 2)), Some (Scalar (PInt 5))]))) =
     Inr (heatmap_figure 0 (Some (Scalar (PInt 2))) (Some (Scalar (PInt 5)))) \<and>
   color_range (heatmap_figure 0 (Some (Scalar (PInt 2))) (Some (Scalar (PInt 5)))) =
     Some (Some (Scalar (PInt 2)), Some (Scalar (PInt 5)))"
proof -
  let ?b = "args_with (Some (Scalar (PInt 10))) None
             (Some [Some (Scalar (PInt 2)), Some (Scalar (PInt 5))])"
  have r: "fst (imshow sample_env (store_of gray_int) (args_with None None None)) =
     Inr (heatmap_figure 0 None None)"
    by (simp add: imshow_eval gray_int_def)
  have n: "ndim (image_array (store_of gray_int) (args_with None None None)) = 2"
    by (simp add: imshow_eval gray_int_def)
  have a: "a_range_color (args_with None None None) = None"
    "a_zmin (args_with None None None) = None" "a_zmax (args_with None None None) = None"
    by (simp_all add: args_with_def default_args_def)
  have r2: "fst (imshow sample_env (store_of gray_int) ?b) =
     Inr (heatmap_figure 0 (Some (Scalar (PInt 2))) (Some (Scalar (PInt 5))))"
    by (simp add: imshow_eval gray_int_def)
  have n2: "ndim (image_array (store_of gray_int) ?b) = 2"
    by (simp add: imshow_eval gray_int_def)
  have a2: "a_range_color ?b = Some [Some (Scalar (PInt 2)), Some (Scalar (PInt 5))]"
    by (simp add: args_with_def default_args_def)
  from heatmap_display_range [OF r n] heatmap_display_range [OF r2 n2] a a2 r n r2
  show ?thesis by simp
qed

text \<open>
  As stated, claim C2 fails: with \<^verbatim>\<open>zmin=10\<close>, \<^verbatim>\<open>zmax=20\<close> and
  \<^verbatim>\<open>range_color=[0, 1]\<close> the colour axis runs from 0 to 1, not from 10 to 20.
\<close>

theorem range_color_overrides_zmin_zmax:
  "ndim (image_array (store_of gray_int)
          (args_with (Some (Scalar (PInt 10))) (Some (Scalar (PInt 20)))
             (Some [Some (Scalar (PInt 0)), Some (Scalar (PInt 1))]))) = 2 \<and>
   map_sum id color_range
     (fst (imshow sample_env (store_of gray_int)
        (args_with (Some (Scalar (PInt 10))) (Some (Scalar (PInt 20)))
           (Some [Some (Scalar (PInt 0)), Some (Scalar (PInt 1))])))) =
     Inr (Some (Some (Scalar (PInt 0)), Some (Scalar (PInt 1))))"
  by (simp add: imshow_eval gray_int_def)

text \<open>
  Claim C6. With \<^verbatim>\<open>zmin\<close> given, \<^verbatim>\<open>zmax\<close> not given and no \<^verbatim>\<open>range_color\<close>, lines
  213-217 resolve the range to \<^verbatim>\<open>[zmin, img.max()]\<close> (raising what
  \<^verbatim>\<open>img.max()\<close> raises), and symmetrically to \<^verbatim>\<open>[img.min(), zmax]\<close>; these are
  the ends of the colour axis of the figure \<^verbatim>\<open>imshow\<close> returns for a 2D array.
\<close>

theorem heatmap_missing_end_filled:
  "heatmap_range img (Some lo) None None =
     and_then (amax img) (\<lambda>m. Inr [Some lo, Some (Scalar m)]) \<and>
   heatmap_range img None (Some hi) None =
     and_then (amin img) (\<lambda>m. Inr [Some (Scalar m), Some hi]) \<and>
   (fst (imshow env h a) = Inr fig \<and> ndim (image_array h a) = 2 \<and> a_range_color a = None \<longrightarrow>
      (a_zmin a = Some lo \<and> a_zmax a = None \<longrightarrow>
         (\<exists>m. amax (image_array h a) = Inr m \<and>
              color_range fig = Some (Some lo, Some (Scalar m)))) \<and>
      (a_zmin a = None \<and> a_zmax a = Some hi \<longrightarrow>
         (\<exists>m. amin (image_array h a) = Inr m \<and>
              color_range fig = Some (Some (Scalar m), Some hi))))"
proof (intro conjI impI)
  show "heatmap_range img (Some lo) None None =
     and_then (amax img) (\<lambda>m. Inr [Some lo, Some (Scalar m)])"
    by (rule heatmap_range_only_zmin)
  show "heatmap_range img None (Some hi) None =
     and_then (amin img) (\<lambda>m. Inr [Some (Scalar m), Some hi])"
    by (rule heatmap_range_only_zmax)
next
  assume f: "fst (imshow env h a) = Inr fig \<and> ndim (image_array h a) = 2 \<and> a_range_color a = None"
    and z: "a_zmin a = Some lo \<and> a_zmax a = None"
  from f color_range_built [of env h a fig] obtain r where
    r: "heatmap_range (image_array h a) (a_zmin a) (a_zmax a) (a_range_color a) = Inr r"
    and c: "color_range fig = Some (r ! 0, r ! 1)" by blast
  from r f z have "and_then (amax (image_array h a)) (\<lambda>m. Inr [Some lo, Some (Scalar m)]) = Inr r"
    by (simp add: heatmap_range_only_zmin)
  with c show "\<exists>m. amax (image_array h a) = Inr m \<and>
              color_range fig = Some (Some lo, Some (Scalar m))"
    by (auto simp: and_then_Inr_iff)
next
  assume f: "fst (imshow env h a) = Inr fig \<and> ndim (image_array h a) = 2 \<and> a_range_color a = None"
    and z: "a_zmin a = None \<and> a_zmax a = Some hi"
  from f color_range_built [of env h a fig] obtain r where
    r: "heatmap_range (image_array h a) (a_zmin a) (a_zmax a) (a_range_color a) = Inr r"
    and c: "color_range fig = Some (r ! 0, r ! 1)" by blast
  from r f z have "and_then (amin (image_array h a)) (\<lambda>m. Inr [Some (Scalar m), Some hi]) = Inr r"
    by (simp add: heatmap_range_only_zmax)
  with c show "\<exists>m. amin (image_array h a) = Inr m \<and>
              color_range fig = Some (Some (Scalar m), Some hi)"
    by (auto simp: and_then_Inr_iff)
qed

text \<open>For the array \<^verbatim>\<open>[[3, 40]]\<close>, \<^verbatim>\<open>zmin=10\<close> resolves to \<^verbatim>\<open>[10, 40]\<close>.\<close>

theorem heatmap_missing_end_filled_witness:
  "fst (imshow sample_env (store_of gray_int) (args_with (Some (Scalar (PInt 10))) None None)) =
     Inr (heatmap_figure 0 (Some (Scalar (PInt 10))) (Some (Scalar (PInt 40)))) \<and>
   ndim (image_array (store_of gray_int) (args_with (Some (Scalar (PInt 10))) None None)) = 2 \<and>
   amax (image_array (store_of gray_int) (args_with (Some (Scalar (PInt 10))) None None)) =
     Inr (PInt 40) \<and>
   color_range (heatmap_figure 0 (Some (Scalar (PInt 10))) (Some (Scalar (PInt 40)))) =
     Some (Some (Scalar (PInt 10)), Some (Scalar (PInt 40)))"
proof -
  let ?a = "args_with (Some (Scalar (PInt 10))) None None"
  let ?fig = "heatmap_figure 0 (Some (Scalar (PInt 10))) (Some (Scalar (PInt 40)))"
  have r: "fst (imshow sample_env (store_of gray_int) ?a) = Inr ?fig"
    by (simp add: imshow_eval gray_int_def)
  have n: "ndim (image_array (store_of gray_int) ?a) = 2"
    by (simp add: imshow_eval gray_int_def)
  have m: "amax (image_array (store_of gray_int) ?a) = Inr (PInt 40)"
    by (simp add: imshow_eval gray_int_def)
  have a: "a_range_color ?a = None" "a_zmin ?a = Some (Scalar (PInt 10))" "a_zmax ?a = None"
    by (simp_all add: args_with_def default_args_def)
  from heatmap_missing_end_filled
    [where env = sample_env and h = "store_of gray_int" and a = ?a and fig = ?fig
       and lo = "Scalar (PInt 10)" and hi = "Scalar (PInt 0)" and img = gray_int]
    r n m a
  show ?thesis by simp
qed

section \<open>The range vectors of an image trace\<close>

text \<open>
  Claim C1. The claim is that a 3- or 4-channel array of type uint8 with no \<^verbatim>\<open>zmax\<close>
  keeps \<^verbatim>\<open>zmax\<close> unset. The guard of line 230 compares \<^verbatim>\<open>img.dtype\<close>, an instance
  of \<^verbatim>\<open>numpy.dtype\<close>, with the class \<^verbatim>\<open>np.uint8\<close> by identity, so it never excludes
  an array: on the uint8 image below the maximum 255 is inferred and the trace gets
  \<^verbatim>\<open>zmax = [255, 255, 255, 1]\<close>.
\<close>

theorem uint8_image_zmax_inferred:
  "img_dtype rgb_uint8 = DtypeInstance (DInt np_ubyte) \<and>
   multichannel rgb_uint8 \<and>
   a_zmax default_args = None \<and>
   fst (imshow sample_env (store_of rgb_uint8) default_args) =
     Inr (image_figure 0 None (Some (Seq [PInt 255, PInt 255, PInt 255, PInt 1])))"
  using infer_rgb_uint8
  by (simp add: imshow_eval rgb_uint8_def)

text \<open>
  Claim C3, as amended. For a multichannel array on which \<^verbatim>\<open>imshow\<close> returns, the
  \<^verbatim>\<open>zmin\<close> of the image trace is unset when \<^verbatim>\<open>zmin\<close> was not given and has exactly
  four elements otherwise; \<^verbatim>\<open>zmax\<close> has exactly four elements when it was given, and
  when it was not given and the element type is not uint8; the alpha slot is 1 unless a
  four-element value supplied it.
\<close>

theorem image_range_vectors:
  assumes "fst (imshow env h a) = Inr fig" and "multichannel (image_array h a)"
  shows "(a_zmin a = None \<longrightarrow> t_zmin (fig_data fig) = None) \<and>
         (a_zmin a \<noteq> None \<longrightarrow>
            four_elements (t_zmin (fig_data fig)) \<and>
            (\<not> alpha_supplied (a_zmin a) \<longrightarrow> opaque_alpha (t_zmin (fig_data fig)))) \<and>
         (a_zmax a \<noteq> None \<longrightarrow>
            four_elements (t_zmax (fig_data fig)) \<and>
            (\<not> alpha_supplied (a_zmax a) \<longrightarrow> opaque_alpha (t_zmax (fig_data fig)))) \<and>
         (a_zmax a = None \<and> dtype_of (buf (image_array h a)) \<noteq> DInt np_ubyte \<longrightarrow>
            opaque_alpha (t_zmax (fig_data fig)))"
proof -
  note b = channel_range_built [OF assms]
  from b have zmin: "vectorize_zvalue (float_repr env) (a_zmin a) = Inr (t_zmin (fig_data fig))"
    by simp
  have inferred: "opaque_alpha (t_zmax (fig_data fig))" if "a_zmax a = None"
  proof -
    from b that obtain m where
      "vectorize_zvalue (float_repr env) (Some (Scalar m)) = Inr (t_zmax (fig_data fig))"
      by blast
    from vectorize_zvalue_Inr [OF this] show ?thesis by (simp add: alpha_supplied_def)
  qed
  have given: "four_elements (t_zmax (fig_data fig)) \<and>
      (\<not> alpha_supplied (a_zmax a) \<longrightarrow> opaque_alpha (t_zmax (fig_data fig)))"
    if "a_zmax a \<noteq> None"
  proof -
    from b that
    have "vectorize_zvalue (float_repr env) (a_zmax a) = Inr (t_zmax (fig_data fig))" by simp
    from vectorize_zvalue_Inr [OF this] that show ?thesis by simp
  qed
  from vectorize_zvalue_Inr [OF zmin] inferred given show ?thesis by blast
qed

text \<open>A float image with \<^verbatim>\<open>zmin=0\<close>: both vectors have four elements and alpha 1.\<close>

theorem image_range_vectors_witness:
  "fst (imshow sample_env (store_of (rgb_float (1 / 2)))
          (args_with (Some (Scalar (PInt 0))) None None)) =
     Inr (image_figure 0 (Some (Seq [PInt 0, PInt 0, PInt 0, PInt 1]))
            (Some (Seq [PInt 1, PInt 1, PInt 1, PInt 1]))) \<and>
   multichannel (image_array (store_of (rgb_float (1 / 2)))
          (args_with (Some (Scalar (PInt 0))) None None)) \<and>
   opaque_alpha (Some (Seq [PInt 0, PInt 0, PInt 0, PInt 1])) \<and>
   opaque_alpha (Some (Seq [PInt 1, PInt 1, PInt 1, PInt 1]))"
proof -
  let ?a = "args_with (Some (Scalar (PInt 0))) None None"
  let ?fig = "image_figure 0 (Some (Seq [PInt 0, PInt 0, PInt 0, PInt 1]))
            (Some (Seq [PInt 1, PInt 1, PInt 1, PInt 1]))"
  have r: "fst (imshow sample_env (store_of (rgb_float (1 / 2))) ?a) = Inr ?fig"
    using infer_rgb_half by (simp add: imshow_eval rgb_float_def)
  have n: "multichannel (image_array (store_of (rgb_float (1 / 2))) ?a)"
    by (simp add: imshow_eval rgb_float_def)
  from image_range_vectors [OF r n] r n show ?thesis
    by (simp add: opaque_alpha_def)
qed

text \<open>
  As stated, claim C3 fails: with the default arguments the \<^verbatim>\<open>zmin\<close> of the image
  trace is \<open>None\<close>, not a vector of four elements.
\<close>

theorem image_zmin_stays_unset:
  "multichannel (image_array (store_of (rgb_float (1 / 2))) default_args) \<and>
   a_zmin default_args = None \<and>
   fst (imshow sample_env (store_of (rgb_float (1 / 2))) default_args) =
     Inr (image_figure 0 None (Some (Seq [PInt 1, PInt 1, PInt 1, PInt 1]))) \<and>
   \<not> four_elements (t_zmin (fig_data
        (image_figure 0 None (Some (Seq [PInt 1, PInt 1, PInt 1, PInt 1])))))"
  using infer_rgb_half
  by (simp add: imshow_eval rgb_float_def four_elements_def)

section \<open>The shape error\<close>

text \<open>
  Claim C7, as amended. When \<^verbatim>\<open>apply_default_cascade\<close> and the reading of a labelled
  input have not raised, \<^verbatim>\<open>imshow\<close> raises the \<^verbatim>\<open>ValueError\<close> whose message
  embeds the shape exactly when the array, after normalization, is neither 2D nor 3D
  with a last dimension of 3 or 4. (Other \<^verbatim>\<open>ValueError\<close>s are raised on arrays of a
  valid shape.)
\<close>

theorem shape_error_raised:
  assumes "apply_default_cascade env a = Inr args"
    and "fst (labelled_input env h a) = Inr v0"
  shows "fst (imshow env h a) =
           Inl (ValueError
             (''px.imshow only accepts 2D single-channel, RGB or RGBA images. '' @
              ''An image of shape '' @ str_tuple (shape (image_array h a)) @ '' was provided''))
         \<longleftrightarrow> \<not> (ndim (image_array h a) = 2 \<or> multichannel (image_array h a))"
proof -
  let ?img = "image_array h a"
  let ?v = "default_aspect (apply_labels (a_labels a) v0)"
  obtain h1 where l: "labelled_input env h a = (Inr v0, h1)"
    using assms(2) by (cases "labelled_input env h a") simp
  obtain p h2 where b: "cast_bools h1 (asanyarray h1 (a_img a)) = (p, h2)"
    by (cases "cast_bools h1 (asanyarray h1 (a_img a))")
  have s: "fst (imshow env h a) = and_then (build_trace env args a ?v p ?img) (finish args ?v ?img)"
    using imshow_steps [OF assms(1) l b] by simp
  have msg: "Inl (ValueError
             (''px.imshow only accepts 2D single-channel, RGB or RGBA images. '' @
              ''An image of shape '' @ str_tuple (shape ?img) @ '' was provided'')) =
        (Inl (shape_error (shape ?img)) :: exn + figure)"
    by (simp add: shape_error_def)
  show ?thesis
  proof (cases "ndim ?img = 2 \<or> multichannel ?img")
    case False
    then have "build_trace env args a ?v p ?img = Inl (shape_error (shape ?img))"
      by (simp add: build_trace_other)
    with s False show ?thesis unfolding msg by simp
  next
    case True
    have "fst (imshow env h a) \<noteq> Inl (shape_error (shape ?img))"
    proof
      assume "fst (imshow env h a) = Inl (shape_error (shape ?img))"
      with s have e: "and_then (build_trace env args a ?v p ?img) (finish args ?v ?img) =
          Inl (shape_error (shape ?img))" by simp
      from True have "build_trace env args a ?v p ?img \<noteq> Inl (shape_error (shape ?img))"
        using heatmap_branch_not_shape_error [of env args a ?v p ?img _ "shape ?img"]
          image_branch_not_shape_error [of env a p ?img _ "shape ?img"]
        by (auto simp: build_trace_heatmap build_trace_image)
      with e finish_not_shape_error [of args ?v ?img _ _ "shape ?img"]
      show False by (auto simp: and_then_Inl_iff)
    qed
    with True show ?thesis unfolding msg by simp
  qed
qed

text \<open>An array of shape (4, 5, 2) raises, and the message prints the shape.\<close>

theorem shape_error_raised_witness:
  "apply_default_cascade sample_env default_args =
     Inr (default_args\<lparr>a_template := Some sample_template,
            a_color_continuous_scale := Some (ScaleName ''Viridis'')\<rparr>) \<and>
   fst (labelled_input sample_env (store_of bad_shape) default_args) =
     Inr \<lparr>v_x_label = None, v_y_label = None, v_x = None, v_y = None,
          v_img_is_xarray = False, v_aspect = None, v_z_name = []\<rparr> \<and>
   shape (image_array (store_of bad_shape) default_args) = [4, 5, 2] \<and>
   \<not> (ndim (image_array (store_of bad_shape) default_args) = 2 \<or>
       multichannel (image_array (store_of bad_shape) default_args)) \<and>
   fst (imshow sample_env (store_of bad_shape) default_args) =
     Inl (ValueError
       ''px.imshow only accepts 2D single-channel, RGB or RGBA images. An image of shape (4, 5, 2) was provided'')"
proof -
  have c: "apply_default_cascade sample_env default_args =
     Inr (default_args\<lparr>a_template := Some sample_template,
            a_color_continuous_scale := Some (ScaleName ''Viridis'')\<rparr>)"
    by (simp add: sample_env_def sample_cascade_def default_args_def)
  have l: "fst (labelled_input sample_env (store_of bad_shape) default_args) =
     Inr \<lparr>v_x_label = None, v_y_label = None, v_x = None, v_y = None,
          v_img_is_xarray = False, v_aspect = None, v_z_name = []\<rparr>"
    by (simp add: labelled_input_def default_args_def sample_env_def Let_def)
  have s: "shape (image_array (store_of bad_shape) default_args) = [4, 5, 2]"
    by (simp add: imshow_eval bad_shape_def)
  have n: "\<not> (ndim (image_array (store_of bad_shape) default_args) = 2 \<or>
       multichannel (image_array (store_of bad_shape) default_args))"
    by (simp add: ndim_def multichannel_def s)
  have t: "str_tuple [4, 5, 2] = ''(4, 5, 2)''" by code_simp
  from shape_error_raised [OF c l] n s t c l show ?thesis by simp
qed

text \<open>
  As stated, claim C7 fails: an image of the valid shape (1, 1, 3) with
  \<^verbatim>\<open>zmax=[1, 2]\<close> raises a \<^verbatim>\<open>ValueError\<close> too.
\<close>

theorem value_error_on_valid_shape:
  "multichannel (image_array (store_of rgb_uint8)
      (args_with None (Some (Seq [PInt 1, PInt 2])) None)) \<and>
   fst (imshow sample_env (store_of rgb_uint8)
      (args_with None (Some (Seq [PInt 1, PInt 2])) None)) =
     Inl (ValueError
       ''zmax can be a scalar, or an iterable of length 1, 3 or 4. A value of [1, 2] was passed for zmax.'')"
proof -
  have str: "py_str (\<lambda>f. ''float'') (Seq [PInt 1, PInt 2]) = ''[1, 2]''"
    by code_simp
  show ?thesis
    using str by (simp add: imshow_eval rgb_uint8_def)
qed

section \<open>Boolean arrays\<close>

lemma image_array_bools:
  assumes "buf (arrays h (asanyarray h (a_img a))) = Bools bs"
  shows "image_array h a =
           \<lparr>shape = shape (arrays h (asanyarray h (a_img a))),
            buf = Ints np_ubyte (map (\<lambda>b. if b then 255 else 0) bs)\<rparr>"
proof -
  obtain q h2 where c: "cast_bools h (asanyarray h (a_img a)) = (q, h2)"
    by (cases "cast_bools h (asanyarray h (a_img a))")
  from cast_bools_bool [OF assms c] image_array_eq [OF c] show ?thesis by auto
qed

text \<open>
  Claim C8. For an input array of booleans, the array the trace is built from has the
  same shape, the 8-bit unsigned type, 0 for every false element and 255 for every true
  one; it is the array the trace of the returned figure refers to.
\<close>

theorem booleans_to_intensities:
  assumes "buf (arrays h (asanyarray h (a_img a))) = Bools bs"
  shows "image_array h a =
           \<lparr>shape = shape (arrays h (asanyarray h (a_img a))),
            buf = Ints np_ubyte (map (\<lambda>b. if b then 255 else 0) bs)\<rparr> \<and>
         (fst (imshow env h a) = Inr fig \<longrightarrow>
            arrays (snd (imshow env h a)) (t_z (fig_data fig)) = image_array h a)"
proof (intro conjI impI)
  show "image_array h a =
           \<lparr>shape = shape (arrays h (asanyarray h (a_img a))),
            buf = Ints np_ubyte (map (\<lambda>b. if b then 255 else 0) bs)\<rparr>"
    using assms by (rule image_array_bools)
next
  assume r: "fst (imshow env h a) = Inr fig"
  then obtain args v0 h1 p built where
    l: "labelled_input env h a = (Inr v0, h1)"
    and c: "cast_bools h1 (asanyarray h1 (a_img a)) = (p, snd (imshow env h a))"
    and b: "build_trace env args a (default_aspect (apply_labels (a_labels a) v0)) p (image_array h a) = Inr built"
    and f: "finish args (default_aspect (apply_labels (a_labels a) v0)) (image_array h a) built = Inr fig"
    by (rule imshow_returns)
  from finish_keeps [OF f] build_trace_z [OF b] have "t_z (fig_data fig) = p" by simp
  with image_array_after_labels [OF l c]
  show "arrays (snd (imshow env h a)) (t_z (fig_data fig)) = image_array h a" by simp
qed

text \<open>\<^verbatim>\<open>[[True, False]]\<close> becomes \<^verbatim>\<open>[[255, 0]]\<close>.\<close>

theorem booleans_to_intensities_witness:
  "buf (arrays (store_of gray_bool) (asanyarray (store_of gray_bool) (a_img default_args))) =
     Bools [True, False] \<and>
   image_array (store_of gray_bool) default_args =
     \<lparr>shape = [1, 2], buf = Ints np_ubyte [255, 0]\<rparr> \<and>
   fst (imshow sample_env (store_of gray_bool) default_args) = Inr (heatmap_figure 2 None None) \<and>
   arrays (snd (imshow sample_env (store_of gray_bool) default_args)) 2 =
     \<lparr>shape = [1, 2], buf = Ints np_ubyte [255, 0]\<rparr>"
proof -
  have b: "buf (arrays (store_of gray_bool) (asanyarray (store_of gray_bool) (a_img default_args))) =
     Bools [True, False]"
    by (simp add: store_of_def gray_bool_def default_args_def)
  have sh: "shape (arrays (store_of gray_bool) (asanyarray (store_of gray_bool) (a_img default_args))) =
     [1, 2]"
    by (simp add: store_of_def gray_bool_def default_args_def)
  have r: "fst (imshow sample_env (store_of gray_bool) default_args) = Inr (heatmap_figure 2 None None)"
    by (simp add: imshow_eval gray_bool_def)
  have z: "t_z (fig_data (heatmap_figure 2 None None)) = 2"
    by (simp add: heatmap_figure_def)
  from booleans_to_intensities [OF b, of sample_env "heatmap_figure 2 None None"] b sh r z
  show ?thesis by simp
qed

section \<open>The caller's arrays\<close>

lemma imshow_store_plain:
  assumes "a_img a = ArrRef p"
  shows "snd (imshow env h a) = h \<or> snd (imshow env h a) = snd (cast_bools h p)"
proof (cases "apply_default_cascade env a")
  case (Inl m)
  then show ?thesis by (simp add: imshow_def)
next
  case (Inr args)
  obtain q h2 where c: "cast_bools h p = (q, h2)" by (cases "cast_bools h p")
  with assms have "cast_bools h (asanyarray h (a_img a)) = (q, h2)" by simp
  from imshow_steps [OF Inr labelled_input_plain [OF assms] this] c
  show ?thesis by simp
qed

text \<open>
  Claim C9. For a plain array as input, every array present in the store before the call
  (the input among them) is the same after it, whether the call returns or raises, and
  so is every labelled array: the conversion of booleans writes to new arrays only.
\<close>

theorem plain_input_not_mutated:
  assumes "a_img a = ArrRef p" and "q < n_arrays h"
  shows "arrays (snd (imshow env h a)) q = arrays h q \<and>
         xarrays (snd (imshow env h a)) = xarrays h"
proof -
  obtain r h2 where c: "cast_bools h p = (r, h2)" by (cases "cast_bools h p")
  from cast_bools_frame [OF c] assms(2)
  have "arrays h2 q = arrays h q \<and> xarrays h2 = xarrays h" by simp
  with imshow_store_plain [OF assms(1), of env h] c show ?thesis by auto
qed

text \<open>The boolean array at address 0 is unchanged by the call that converts it.\<close>

theorem plain_input_not_mutated_witness:
  "a_img default_args = ArrRef 0 \<and> 0 < n_arrays (store_of gray_bool) \<and>
   arrays (store_of gray_bool) 0 = gray_bool \<and>
   arrays (snd (imshow sample_env (store_of gray_bool) default_args)) 0 = gray_bool \<and>
   xarrays (snd (imshow sample_env (store_of gray_bool) default_args)) =
     xarrays (store_of gray_bool)"
proof -
  have a: "a_img default_args = ArrRef 0" by (simp add: default_args_def)
  have n: "0 < n_arrays (store_of gray_bool)" by (simp add: store_of_def)
  have s: "arrays (store_of gray_bool) 0 = gray_bool" by (simp add: store_of_def)
  from plain_input_not_mutated [OF a n, of sample_env] a n s show ?thesis by simp
qed

text \<open>
  A labelled array is another matter: lines 176-178 replace its date-time coordinates by
  text in the caller's object.
\<close>

lemma labelled_input_converts_dates:
  "da_coords (xarrays labelled_store 0) ''time'' = Some (DatetimeCoord [''2020-01-01'']) \<and>
   da_coords (xarrays (snd (imshow sample_env labelled_store (default_args\<lparr>a_img := XrRef 0\<rparr>))) 0)
     ''time'' = Some (StrCoord [''2020-01-01''])"
  by (simp add: imshow_eval labelled_store_def gray_int_def datetime_to_text_def)

section \<open>No labels\<close>

lemma apply_labels_none: "apply_labels None v = v" "apply_labels (Some (\<lambda>k. None)) v = v"
  by (simp_all add: apply_labels_def)

lemma labelled_input_labels:
  "labelled_input env h (a\<lparr>a_labels := l\<rparr>) = labelled_input env h a"
  by (auto simp: labelled_input_def Let_def simp del: coords_to_text.simps
      split: ref.splits sum.splits prod.splits option.splits)

lemma build_trace_labels:
  "a_color_continuous_scale args = a_color_continuous_scale args' \<Longrightarrow>
   build_trace env args (a\<lparr>a_labels := l\<rparr>) v p img = build_trace env args' a v p img"
  by (simp add: build_trace_def heatmap_branch_def image_branch_def Let_def cong: if_cong)

lemma finish_entries:
  "a_title args = a_title args' \<Longrightarrow> a_height args = a_height args' \<Longrightarrow>
   a_width args = a_width args' \<Longrightarrow> a_template args = a_template args' \<Longrightarrow>
   finish args v img = finish args' v img"
  by (simp add: finish_def layout_patch_def fun_eq_iff Let_def cong: if_cong)

lemma image_array_labels: "image_array h (a\<lparr>a_labels := l\<rparr>) = image_array h a"
  by (simp add: image_array_def)

lemma imshow_labels_irrelevant:
  assumes "map_sum id entries_read (apply_default_cascade env (a\<lparr>a_labels := l\<rparr>)) =
           map_sum id entries_read (apply_default_cascade env (a\<lparr>a_labels := l'\<rparr>))"
    and "\<And>v. apply_labels l v = apply_labels l' v"
  shows "imshow env h (a\<lparr>a_labels := l\<rparr>) = imshow env h (a\<lparr>a_labels := l'\<rparr>)"
proof (cases "apply_default_cascade env (a\<lparr>a_labels := l\<rparr>)")
  case (Inl m)
  with assms(1) have "apply_default_cascade env (a\<lparr>a_labels := l'\<rparr>) = Inl m"
    by (cases "apply_default_cascade env (a\<lparr>a_labels := l'\<rparr>)") simp_all
  with Inl show ?thesis by (simp add: imshow_def)
next
  case (Inr args)
  with assms(1) obtain args' where
    c': "apply_default_cascade env (a\<lparr>a_labels := l'\<rparr>) = Inr args'"
    and e: "entries_read args = entries_read args'"
    by (cases "apply_default_cascade env (a\<lparr>a_labels := l'\<rparr>)") simp_all
  from e have b: "build_trace env args (a\<lparr>a_labels := l\<rparr>) v p img =
      build_trace env args' (a\<lparr>a_labels := l'\<rparr>) v p img" for v p img
    using build_trace_labels [where args = args and args' = args' and a = a and l = l]
      build_trace_labels [where args = args' and args' = args' and a = a and l = l']
    by (simp add: entries_read_def)
  from e have f: "finish args v img = finish args' v img" for v img
    using finish_entries [of args args' v img] by (simp add: entries_read_def)
  obtain r h1 where lab: "labelled_input env h (a\<lparr>a_labels := l\<rparr>) = (r, h1)"
    by (cases "labelled_input env h (a\<lparr>a_labels := l\<rparr>)")
  then have lab': "labelled_input env h (a\<lparr>a_labels := l'\<rparr>) = (r, h1)"
    by (simp add: labelled_input_labels)
  show ?thesis
  proof (cases r)
    case (Inl x)
    with Inr c' lab lab' show ?thesis by (simp add: imshow_def)
  next
    case v0: (Inr v0)
    obtain p h2 where cb: "cast_bools h1 (asanyarray h1 (a_img a)) = (p, h2)"
      by (cases "cast_bools h1 (asanyarray h1 (a_img a))")
    have one: "imshow env h (a\<lparr>a_labels := l\<rparr>) =
        (and_then (build_trace env args (a\<lparr>a_labels := l\<rparr>)
                     (default_aspect (apply_labels l v0)) p (image_array h a))
                  (finish args (default_aspect (apply_labels l v0)) (image_array h a)), h2)"
      using imshow_steps [OF Inr lab [unfolded v0], of p h2] cb
      by (simp add: image_array_labels)
    have two: "imshow env h (a\<lparr>a_labels := l'\<rparr>) =
        (and_then (build_trace env args' (a\<lparr>a_labels := l'\<rparr>)
                     (default_aspect (apply_labels l' v0)) p (image_array h a))
                  (finish args' (default_aspect (apply_labels l' v0)) (image_array h a)), h2)"
      using imshow_steps [OF c' lab' [unfolded v0], of p h2] cb
      by (simp add: image_array_labels)
    from one two b f assms(2) show ?thesis by simp
  qed
qed

text \<open>
  Claim C10. With \<^verbatim>\<open>labels=None\<close> no label is overridden, and the call has the same
  outcome (the same figure or the same exception, and the same store) as with the empty
  dictionary, for every \<^verbatim>\<open>apply_default_cascade\<close> whose effect on the entries read
  later does not depend on \<^verbatim>\<open>labels\<close>.
\<close>

theorem labels_none_as_empty:
  assumes "cascade_ignores_labels env"
  shows "apply_labels None v = v \<and>
         imshow env h (a\<lparr>a_labels := None\<rparr>) = imshow env h (a\<lparr>a_labels := Some (\<lambda>k. None)\<rparr>)"
proof
  show "apply_labels None v = v"
    by (simp add: apply_labels_none)
  show "imshow env h (a\<lparr>a_labels := None\<rparr>) = imshow env h (a\<lparr>a_labels := Some (\<lambda>k. None)\<rparr>)"
  proof (rule imshow_labels_irrelevant)
    from assms
    show "map_sum id entries_read (apply_default_cascade env (a\<lparr>a_labels := None\<rparr>)) =
          map_sum id entries_read (apply_default_cascade env (a\<lparr>a_labels := Some (\<lambda>k. None)\<rparr>))"
      unfolding cascade_ignores_labels_def by blast
    show "apply_labels None w = apply_labels (Some (\<lambda>k. None)) w" for w
      by (simp add: apply_labels_none)
  qed
qed

text \<open>On a 2D array both calls return the same heatmap.\<close>

theorem labels_none_as_empty_witness:
  "cascade_ignores_labels sample_env \<and>
   imshow sample_env (store_of gray_int) (default_args\<lparr>a_labels := None\<rparr>) =
     imshow sample_env (store_of gray_int) (default_args\<lparr>a_labels := Some (\<lambda>k. None)\<rparr>) \<and>
   fst (imshow sample_env (store_of gray_int) (default_args\<lparr>a_labels := None\<rparr>)) =
     Inr (heatmap_figure 0 None None)"
proof -
  have r: "fst (imshow sample_env (store_of gray_int) (default_args\<lparr>a_labels := None\<rparr>)) =
     Inr (heatmap_figure 0 None None)"
    by (simp add: imshow_eval gray_int_def)
  from labels_none_as_empty
      [OF sample_cascade_ignores_labels, where h = "store_of gray_int" and a = default_args]
    sample_cascade_ignores_labels r
  show ?thesis by simp
qed

end
